theory Spec2Isabelle
  imports Complex_Main "HOL-Library.Word" "HOL-Library.Signed_Division"
begin

section \<open>The UMAP layout optimizer of \<open>simpl_set_embed/algo.h\<close>\<close>

text \<open>
  The embedding follows \<open>src/cpp/src/umap/simpl_set_embed/algo.h\<close> function by function.

  \<^item> The element type \<open>T\<close> (\<open>float\<close>) and \<open>double\<close> are both modelled by \<^typ>\<open>real\<close>:
    the values of the kernel model are finite and its arithmetic is exact, without
    rounding. Division by zero is \<open>0\<close> in HOL and is infinite or NaN in the source;
    theorems that depend on a divisor carry its positivity as a hypothesis. NaN and the
    infinities are modelled for \<open>clip\<close> and the values \<open>grad_d\<close>, in a subsection of
    their own.
  \<^item> C \<open>int\<close> values are \<^typ>\<open>int\<close>; the \<open>int\<close> drawn from the random generator is a
    \<^typ>\<open>32 word\<close> read with \<^const>\<open>sint\<close>, and C's \<open>%\<close> is \<open>smod\<close> (truncating).
  \<^item> Device memory holding embeddings is one flat store from addresses (in units of
    \<open>T\<close>) to values; a pointer \<open>T *\<close> is an address, pointer arithmetic is integer
    addition, and two pointers alias exactly when they are equal.
  \<^item> The per-edge arrays (\<open>head\<close>, \<open>tail\<close>, the schedule arrays) are lists.
  \<^item> A read or write outside an array, or outside the \<open>head_n\<close> / \<open>tail_n\<close> rows of an
    embedding, is undefined behaviour in the source, and so is an integer remainder by
    zero; the model makes them the errors \<open>IllegalAddress\<close> and \<open>DivisionByZero\<close>,
    which end the call as the driver's \<open>CUDA_CHECK(cudaGetLastError())\<close> does for a
    failed launch.
  \<^item> The threads of one kernel launch are run one after the other in row order, each
    \<open>atomicAdd\<close> being one update of the store.
  \<^item> The wall clock (\<open>gettimeofday\<close>) and the Philox generator are parameters:
    \<open>seed_of n\<close> is the seed computed in epoch \<open>n\<close>, and \<open>gen seed row p\<close> is the value
    of the \<open>p\<close>-th call of \<open>next\<close> on \<open>PhiloxGenerator(seed, row, 0)\<close>.
  \<^item> The allocator and the stream, which carry no data of the algorithm, are left out.
\<close>

subsection \<open>Data\<close>

type_synonym mem = "int \<Rightarrow> real"

type_synonym rng = "64 word \<Rightarrow> 64 word \<Rightarrow> nat \<Rightarrow> 32 word"

datatype error = IllegalAddress | DivisionByZero

text \<open>
  Modelled from the spec: \<open>UMAPParams\<close> is declared in \<open>cuml/manifold/umapparams.h\<close>,
  which is not among the sources. The record has the fields that \<open>algo.h\<close> reads. The
  curve parameters \<open>a\<close> and \<open>b\<close> and the field \<open>n_epochs\<close> are named \<open>params_a\<close>,
  \<open>params_b\<close> and \<open>params_n_epochs\<close>, apart from the local variables of the same
  names. The progress callback receives the embedding pointer and may therefore change
  the store. \<open>verbose\<close> only prints and is left out.
\<close>

record UMAPParams =
  n_components :: int
  params_a :: real
  params_b :: real
  negative_sample_rate :: int
  repulsion_strength :: real
  initial_alpha :: real
  params_n_epochs :: int
  callback :: "(mem \<Rightarrow> mem) option"

text \<open>
  Modelled from the spec: \<open>MLCommon::Sparse::COO\<close> is declared in \<open>sparse/coo.h\<close>, which
  is not among the sources. It is "three equal-length arrays (row indices, column indices,
  real-valued weights) plus a nonzero count"; the count is the length of the arrays.
\<close>

record COO =
  rows :: "int list"
  cols :: "int list"
  vals :: "real list"

definition coo_nnz :: "COO \<Rightarrow> int" where
  "coo_nnz c = int (length (vals c))"

text \<open>
  Modelled from the spec: \<open>coo_remove_zeros\<close> is defined in \<open>sparse/coo.h\<close>, which is not
  among the sources. It "compacts the edge list, discarding zero-weight entries" and
  returns a new structure; the input is not changed.
\<close>

definition coo_remove_zeros :: "COO \<Rightarrow> COO" where
  "coo_remove_zeros c =
     (let es = filter (\<lambda>(i, j, v). v \<noteq> 0) (zip (rows c) (zip (cols c) (vals c)))
      in \<lparr>rows = map fst es, cols = map (fst \<circ> snd) es, vals = map (snd \<circ> snd) es\<rparr>)"

text \<open>
  The state that the kernel and the driver change: the store, the two counter arrays, and
  the driver's local variable \<open>alpha\<close>.
\<close>

record state =
  emb :: mem
  epoch_of_next_negative_sample :: "real list"
  epoch_of_next_sample :: "real list"
  layout_alpha :: real

subsection \<open>Helpers\<close>

text \<open>Running a loop body over a list of indices, stopping at the first error.\<close>

primrec foldM :: "('i \<Rightarrow> 's \<Rightarrow> error + 's) \<Rightarrow> 'i list \<Rightarrow> 's \<Rightarrow> error + 's" where
  "foldM f [] s = Inr s"
| "foldM f (x # xs) s = (case f x s of Inl e \<Rightarrow> Inl e | Inr s' \<Rightarrow> foldM f xs s')"

text \<open>The indices \<open>0, \<dots>, n - 1\<close> of a C loop \<open>for (int d = 0; d < n; d++)\<close>.\<close>

definition upto_int :: "int \<Rightarrow> int list" where
  "upto_int n = map int [0..<nat n]"

definition atomicAdd :: "mem \<Rightarrow> int \<Rightarrow> real \<Rightarrow> mem" where
  "atomicAdd m p v = m(p := m p + v)"

text \<open>
  \<open>thrust::max_element\<close> dereferenced. On an empty range the source reads past the end of
  the array; the value read is used for no element, and the model takes \<open>0\<close> for it.
\<close>

fun max_element :: "real list \<Rightarrow> real" where
  "max_element [] = 0"
| "max_element (x # xs) = fold max xs x"

text \<open>
  The conversion \<open>int(x)\<close> of a floating-point value: truncation towards zero. A value
  outside the range of \<open>int\<close> is undefined in C++; device code saturates.
\<close>

definition float2int :: "real \<Rightarrow> int" where
  "float2int x =
     (let t = (if 0 \<le> x then \<lfloor>x\<rfloor> else \<lceil>x\<rceil>)
      in max (- (2 ^ 31)) (min t (2 ^ 31 - 1)))"

subsection \<open>Gradient math\<close>

definition rdist :: "mem \<Rightarrow> int \<Rightarrow> int \<Rightarrow> int \<Rightarrow> real" where
  "rdist m X Y n = fold (\<lambda>i result. result + (m (X + i) - m (Y + i)) ^ 2) (upto_int n) 0"

text \<open>
  \<open>clip\<close> on the finite values of the kernel model. What it does on NaN and on the
  infinities is \<open>clip_double\<close> below; the two agree on finite values.
\<close>

definition clip :: "real \<Rightarrow> real \<Rightarrow> real \<Rightarrow> real" where
  "clip val lb ub = (if val > ub then ub else if val < lb then lb else val)"

text \<open>
  \<open>pow\<close> is \<open>powr\<close>; the two agree on a positive base, and the kernel calls both
  functions with \<open>dist_squared > 0\<close> only.
\<close>

definition repulsive_grad :: "real \<Rightarrow> real \<Rightarrow> UMAPParams \<Rightarrow> real" where
  "repulsive_grad dist_squared gamma params =
     (2 * gamma * params_b params) /
       ((0.001 + dist_squared) * (params_a params * (dist_squared powr params_b params) + 1))"

definition attractive_grad :: "real \<Rightarrow> UMAPParams \<Rightarrow> real" where
  "attractive_grad dist_squared params =
     (- 2 * params_a params * params_b params * (dist_squared powr (params_b params - 1))) /
       (params_a params * (dist_squared powr params_b params) + 1)"

subsection \<open>Epoch schedule builder\<close>

definition make_epochs_per_sample :: "real list \<Rightarrow> int \<Rightarrow> int \<Rightarrow> real list" where
  "make_epochs_per_sample weights weights_n n_epochs =
     (let ws = take (nat weights_n) weights;
          weights_max = max_element ws
      in map (\<lambda>input.
                let v = real_of_int n_epochs * (input / weights_max)
                in if v > 0 then real_of_int n_epochs / v else - 1) ws)"

subsection \<open>The kernel: one thread per edge\<close>

text \<open>
  Row \<open>i\<close> of an embedding with \<open>n_rows\<close> rows is read over \<open>n_comp\<close> cells; with
  \<open>n_comp \<le> 0\<close> no cell is touched.
\<close>

definition row_in_bounds :: "int \<Rightarrow> int \<Rightarrow> int \<Rightarrow> bool" where
  "row_in_bounds n_rows n_comp i = (n_comp \<le> 0 \<or> (0 \<le> i \<and> i < n_rows))"

text \<open>The value \<open>grad_d\<close> of the attractive loop, and one iteration of that loop.\<close>

definition attractive_grad_d :: "real \<Rightarrow> real \<Rightarrow> real \<Rightarrow> real" where
  "attractive_grad_d attractive_grad_coeff current_d other_d =
     clip (attractive_grad_coeff * (current_d - other_d)) (- 4) 4"

definition attractive_update ::
  "real \<Rightarrow> real \<Rightarrow> bool \<Rightarrow> int \<Rightarrow> int \<Rightarrow> int \<Rightarrow> mem \<Rightarrow> mem" where
  "attractive_update attractive_grad_coeff alpha move_other current other d m =
     (let grad_d = attractive_grad_d attractive_grad_coeff (m (current + d)) (m (other + d));
          m1 = atomicAdd m (current + d) (grad_d * alpha)
      in if move_other then atomicAdd m1 (other + d) (- grad_d * alpha) else m1)"

text \<open>The positive sample stage, from the distance to the end of the loop over \<open>d\<close>.\<close>

definition positive_sample_stage ::
  "UMAPParams \<Rightarrow> bool \<Rightarrow> real \<Rightarrow> int \<Rightarrow> int \<Rightarrow> mem \<Rightarrow> mem" where
  "positive_sample_stage params move_other alpha current other m =
     (let dist_squared = rdist m current other (n_components params);
          attractive_grad_coeff =
            (if dist_squared > 0 then attractive_grad dist_squared params else 0)
      in fold (attractive_update attractive_grad_coeff alpha move_other current other)
           (upto_int (n_components params)) m)"

text \<open>The value \<open>grad_d\<close> of the repulsive loop, and one iteration of that loop.\<close>

definition repulsive_grad_d :: "real \<Rightarrow> real \<Rightarrow> real \<Rightarrow> real" where
  "repulsive_grad_d repulsive_grad_coeff current_d negative_d =
     (if repulsive_grad_coeff > 0
      then clip (repulsive_grad_coeff * (current_d - negative_d)) (- 4) 4
      else 4)"

definition repulsive_update :: "real \<Rightarrow> real \<Rightarrow> int \<Rightarrow> int \<Rightarrow> int \<Rightarrow> mem \<Rightarrow> mem" where
  "repulsive_update repulsive_grad_coeff alpha current negative_sample d m =
     (let grad_d =
            repulsive_grad_d repulsive_grad_coeff (m (current + d)) (m (negative_sample + d))
      in atomicAdd m (current + d) (grad_d * alpha))"

text \<open>The candidate vertex of a draw: \<open>int t = r % tail_n\<close>.\<close>

definition negative_sample_index :: "32 word \<Rightarrow> int \<Rightarrow> int" where
  "negative_sample_index r tail_n = sint r smod tail_n"

text \<open>Iteration \<open>p\<close> of the negative sampling loop; \<open>continue\<close> returns the store as it is.\<close>

definition negative_sample_draw ::
  "UMAPParams \<Rightarrow> rng \<Rightarrow> int \<Rightarrow> int \<Rightarrow> int \<Rightarrow> int \<Rightarrow> real \<Rightarrow> real \<Rightarrow> 64 word \<Rightarrow> nat \<Rightarrow>
   nat \<Rightarrow> mem \<Rightarrow> error + mem" where
  "negative_sample_draw params gen tail_embedding tail_n j current alpha gamma seed row p m =
     (let r = gen seed (of_nat row) p
      in if tail_n = 0 then Inl DivisionByZero
         else
           let t = negative_sample_index r tail_n
           in if \<not> row_in_bounds tail_n (n_components params) t then Inl IllegalAddress
              else
                let negative_sample = tail_embedding + t * n_components params;
                    dist_squared = rdist m current negative_sample (n_components params);
                    repulsive_grad_coeff =
                      (if dist_squared > 0 then repulsive_grad dist_squared gamma params else 0)
                in if \<not> dist_squared > 0 \<and> j = t then Inr m
                   else Inr (fold (repulsive_update repulsive_grad_coeff alpha current
                                     negative_sample)
                               (upto_int (n_components params)) m))"

text \<open>
  The body of the kernel for the thread of index \<open>row\<close>. The parameter \<open>n_vertices\<close>,
  which the kernel does not use, is left out.
\<close>

definition optimize_batch_kernel_thread ::
  "UMAPParams \<Rightarrow> rng \<Rightarrow> int \<Rightarrow> int \<Rightarrow> int \<Rightarrow> int \<Rightarrow> int list \<Rightarrow> int list \<Rightarrow> int \<Rightarrow>
   real list \<Rightarrow> bool \<Rightarrow> real list \<Rightarrow> real \<Rightarrow> int \<Rightarrow> real \<Rightarrow> 64 word \<Rightarrow> nat \<Rightarrow>
   state \<Rightarrow> error + state" where
  "optimize_batch_kernel_thread params gen head_embedding head_n tail_embedding tail_n head
     tail nnz epochs_per_sample move_other epochs_per_negative_sample alpha epoch gamma seed
     row s =
     (if \<not> int row < nnz then Inr s
      else if \<not> row < length (epoch_of_next_sample s) then Inl IllegalAddress
      else if \<not> epoch_of_next_sample s ! row \<le> real_of_int epoch then Inr s
      else if \<not> (row < length head \<and> row < length tail \<and> row < length epochs_per_sample \<and>
                 row < length epochs_per_negative_sample \<and>
                 row < length (epoch_of_next_negative_sample s))
      then Inl IllegalAddress
      else
        let j = head ! row;
            k = tail ! row
        in if \<not> (row_in_bounds head_n (n_components params) j \<and>
                  row_in_bounds tail_n (n_components params) k)
           then Inl IllegalAddress
           else
             let current = head_embedding + j * n_components params;
                 other = tail_embedding + k * n_components params;
                 m1 = positive_sample_stage params move_other alpha current other (emb s);
                 next_sample =
                   (epoch_of_next_sample s)
                     [row := epoch_of_next_sample s ! row + epochs_per_sample ! row];
                 n_neg_samples =
                   float2int ((real_of_int epoch - epoch_of_next_negative_sample s ! row) /
                              epochs_per_negative_sample ! row)
             in case foldM (negative_sample_draw params gen tail_embedding tail_n j current
                              alpha gamma seed row)
                       [0..<nat n_neg_samples] m1 of
                  Inl e \<Rightarrow> Inl e
                | Inr m2 \<Rightarrow>
                    Inr (s\<lparr>emb := m2,
                           epoch_of_next_negative_sample :=
                             (epoch_of_next_negative_sample s)
                               [row := epoch_of_next_negative_sample s ! row +
                                       real_of_int n_neg_samples *
                                       epochs_per_negative_sample ! row],
                           epoch_of_next_sample := next_sample\<rparr>))"

text \<open>
  One launch of the kernel. The threads with \<open>row \<ge> nnz\<close> do nothing, so the launch is
  the run of the threads \<open>0, \<dots>, nnz - 1\<close>.
\<close>

definition optimize_batch_kernel ::
  "UMAPParams \<Rightarrow> rng \<Rightarrow> int \<Rightarrow> int \<Rightarrow> int \<Rightarrow> int \<Rightarrow> int list \<Rightarrow> int list \<Rightarrow> int \<Rightarrow>
   real list \<Rightarrow> bool \<Rightarrow> real list \<Rightarrow> real \<Rightarrow> int \<Rightarrow> real \<Rightarrow> 64 word \<Rightarrow>
   state \<Rightarrow> error + state" where
  "optimize_batch_kernel params gen head_embedding head_n tail_embedding tail_n head tail nnz
     epochs_per_sample move_other epochs_per_negative_sample alpha epoch gamma seed s =
     foldM (optimize_batch_kernel_thread params gen head_embedding head_n tail_embedding
              tail_n head tail nnz epochs_per_sample move_other epochs_per_negative_sample
              alpha epoch gamma seed)
       [0..<nat nnz] s"

subsection \<open>The driver\<close>

definition on_epoch_end :: "UMAPParams \<Rightarrow> mem \<Rightarrow> mem" where
  "on_epoch_end params m = (case callback params of None \<Rightarrow> m | Some cb \<Rightarrow> cb m)"

text \<open>
  The body of the loop \<open>for (int n = 0; n < n_epochs; n++)\<close>: the launch with the current
  \<open>alpha\<close>, the error check, the callback, and the new \<open>alpha\<close>.
\<close>

definition epoch_body ::
  "UMAPParams \<Rightarrow> rng \<Rightarrow> (nat \<Rightarrow> 64 word) \<Rightarrow> int \<Rightarrow> int \<Rightarrow> int \<Rightarrow> int \<Rightarrow> int list \<Rightarrow>
   int list \<Rightarrow> int \<Rightarrow> real list \<Rightarrow> bool \<Rightarrow> real list \<Rightarrow> real \<Rightarrow> int \<Rightarrow> nat \<Rightarrow>
   state \<Rightarrow> error + state" where
  "epoch_body params gen seed_of head_embedding head_n tail_embedding tail_n head tail nnz
     epochs_per_sample move_other epochs_per_negative_sample gamma n_epochs n s =
     (let seed = seed_of n
      in case optimize_batch_kernel params gen head_embedding head_n tail_embedding tail_n
                head tail nnz epochs_per_sample move_other epochs_per_negative_sample
                (layout_alpha s) (int n) gamma seed s of
           Inl e \<Rightarrow> Inl e
         | Inr s1 \<Rightarrow>
             Inr (s1\<lparr>emb := on_epoch_end params (emb s1),
                     layout_alpha :=
                       initial_alpha params *
                       (1 - real_of_int (int n) / real_of_int n_epochs)\<rparr>))"

text \<open>The first \<open>count\<close> iterations of the loop, that is the epochs \<open>0, \<dots>, count - 1\<close>.\<close>

primrec run_epochs ::
  "UMAPParams \<Rightarrow> rng \<Rightarrow> (nat \<Rightarrow> 64 word) \<Rightarrow> int \<Rightarrow> int \<Rightarrow> int \<Rightarrow> int \<Rightarrow> int list \<Rightarrow>
   int list \<Rightarrow> int \<Rightarrow> real list \<Rightarrow> bool \<Rightarrow> real list \<Rightarrow> real \<Rightarrow> int \<Rightarrow> nat \<Rightarrow>
   state \<Rightarrow> error + state" where
  "run_epochs params gen seed_of head_embedding head_n tail_embedding tail_n head tail nnz
     epochs_per_sample move_other epochs_per_negative_sample gamma n_epochs 0 s = Inr s"
| "run_epochs params gen seed_of head_embedding head_n tail_embedding tail_n head tail nnz
     epochs_per_sample move_other epochs_per_negative_sample gamma n_epochs (Suc count) s =
     (case run_epochs params gen seed_of head_embedding head_n tail_embedding tail_n head
             tail nnz epochs_per_sample move_other epochs_per_negative_sample gamma n_epochs
             count s of
        Inl e \<Rightarrow> Inl e
      | Inr s' \<Rightarrow>
          epoch_body params gen seed_of head_embedding head_n tail_embedding tail_n head tail
            nnz epochs_per_sample move_other epochs_per_negative_sample gamma n_epochs count
            s')"

text \<open>The buffers that \<open>optimize_layout\<close> allocates and fills before the loop.\<close>

definition negative_schedule :: "UMAPParams \<Rightarrow> int \<Rightarrow> real list \<Rightarrow> real list" where
  "negative_schedule params nnz epochs_per_sample =
     (let nsr = negative_sample_rate params
      in map (\<lambda>input. input / real_of_int nsr) (take (nat nnz) epochs_per_sample))"

definition layout_init :: "UMAPParams \<Rightarrow> int \<Rightarrow> real list \<Rightarrow> mem \<Rightarrow> state" where
  "layout_init params nnz epochs_per_sample m =
     \<lparr>emb = m,
      epoch_of_next_negative_sample = negative_schedule params nnz epochs_per_sample,
      epoch_of_next_sample = take (nat nnz) epochs_per_sample,
      layout_alpha = initial_alpha params\<rparr>"

text \<open>
  \<open>optimize_layout\<close> from the choice of \<open>move_other\<close> on: the schedule buffers, then
  the whole loop. The result is the store, or the error of the failed launch.
\<close>

definition optimize_layout_loop ::
  "UMAPParams \<Rightarrow> rng \<Rightarrow> (nat \<Rightarrow> 64 word) \<Rightarrow> bool \<Rightarrow> int \<Rightarrow> int \<Rightarrow> int \<Rightarrow> int \<Rightarrow> int list \<Rightarrow>
   int list \<Rightarrow> int \<Rightarrow> real list \<Rightarrow> real \<Rightarrow> int \<Rightarrow> mem \<Rightarrow> error + mem" where
  "optimize_layout_loop params gen seed_of move_other head_embedding head_n tail_embedding
     tail_n head tail nnz epochs_per_sample gamma n_epochs m =
     (case run_epochs params gen seed_of head_embedding head_n tail_embedding tail_n head
             tail nnz epochs_per_sample move_other
             (negative_schedule params nnz epochs_per_sample) gamma n_epochs (nat n_epochs)
             (layout_init params nnz epochs_per_sample m) of
        Inl e \<Rightarrow> Inl e
      | Inr s \<Rightarrow> Inr (emb s))"

definition optimize_layout ::
  "UMAPParams \<Rightarrow> rng \<Rightarrow> (nat \<Rightarrow> 64 word) \<Rightarrow> int \<Rightarrow> int \<Rightarrow> int \<Rightarrow> int \<Rightarrow> int list \<Rightarrow>
   int list \<Rightarrow> int \<Rightarrow> real list \<Rightarrow> real \<Rightarrow> int \<Rightarrow> mem \<Rightarrow> error + mem" where
  "optimize_layout params gen seed_of head_embedding head_n tail_embedding tail_n head tail
     nnz epochs_per_sample gamma n_epochs m =
     (let move_other = (head_embedding = tail_embedding)
      in optimize_layout_loop params gen seed_of move_other head_embedding head_n
           tail_embedding tail_n head tail nnz epochs_per_sample gamma n_epochs m)"

subsection \<open>The launcher\<close>

text \<open>The epoch budget: the configured one, or the default for the number of rows \<open>m\<close>.\<close>

definition launcher_n_epochs :: "int \<Rightarrow> UMAPParams \<Rightarrow> int" where
  "launcher_n_epochs m params =
     (let n_epochs = params_n_epochs params
      in if n_epochs \<le> 0 then (if m \<le> 10000 then 500 else 200) else n_epochs)"

text \<open>The thresholding \<open>unaryOp\<close>, which writes its result over \<open>in->vals()\<close>.\<close>

definition prune_weights :: "real \<Rightarrow> int \<Rightarrow> real list \<Rightarrow> real list" where
  "prune_weights max_w n_epochs ws =
     map (\<lambda>input. if input < max_w / real_of_int n_epochs then 0 else input) ws"

text \<open>
  The launcher returns the caller's edge list \<open>in\<close> as the call leaves it, and the
  store or the error. The parameter \<open>n\<close> of the source is not used.
\<close>

definition launcher ::
  "int \<Rightarrow> COO \<Rightarrow> UMAPParams \<Rightarrow> int \<Rightarrow> rng \<Rightarrow> (nat \<Rightarrow> 64 word) \<Rightarrow> mem \<Rightarrow>
   COO \<times> (error + mem)" where
  "launcher m inp params embedding gen seed_of mem0 =
     (let max_w = max_element (vals inp);
          n_epochs = launcher_n_epochs m params;
          inp' = inp\<lparr>vals := prune_weights max_w n_epochs (vals inp)\<rparr>;
          out = coo_remove_zeros inp';
          epochs_per_sample = make_epochs_per_sample (vals out) (coo_nnz out) n_epochs
      in (inp',
          optimize_layout params gen seed_of embedding m embedding m (rows out) (cols out)
            (coo_nnz out) epochs_per_sample (repulsion_strength params) n_epochs mem0))"

subsection \<open>The values of \<open>double\<close> that are not finite\<close>

text \<open>
  The functions above compute with finite values. To say what \<open>clip\<close> and the two
  computations of \<open>grad_d\<close> do on the other values of \<open>double\<close>, they are given a second
  time on a type that has NaN and the two infinities beside the finite values \<open>Num x\<close>.
  On finite values the arithmetic stays exact. A comparison with NaN is false, a
  difference of equal infinities and a product of zero and an infinity are NaN.
\<close>

datatype double = NaN | MInf | Num real | PInf

fun double_less :: "double \<Rightarrow> double \<Rightarrow> bool" where
  "double_less NaN y = False"
| "double_less x NaN = False"
| "double_less MInf MInf = False"
| "double_less MInf y = True"
| "double_less x MInf = False"
| "double_less PInf y = False"
| "double_less x PInf = True"
| "double_less (Num x) (Num y) = (x < y)"

fun double_minus :: "double \<Rightarrow> double \<Rightarrow> double" where
  "double_minus NaN y = NaN"
| "double_minus x NaN = NaN"
| "double_minus PInf PInf = NaN"
| "double_minus MInf MInf = NaN"
| "double_minus PInf y = PInf"
| "double_minus MInf y = MInf"
| "double_minus x PInf = MInf"
| "double_minus x MInf = PInf"
| "double_minus (Num x) (Num y) = Num (x - y)"

text \<open>The product of an infinity and the finite value \<open>x\<close>.\<close>

definition scale_inf :: "double \<Rightarrow> real \<Rightarrow> double" where
  "scale_inf i x =
     (if x = 0 then NaN
      else if 0 < x then i
      else (if i = PInf then MInf else PInf))"

fun double_times :: "double \<Rightarrow> double \<Rightarrow> double" where
  "double_times NaN y = NaN"
| "double_times x NaN = NaN"
| "double_times (Num x) (Num y) = Num (x * y)"
| "double_times (Num x) y = scale_inf y x"
| "double_times x (Num y) = scale_inf x y"
| "double_times x y = (if x = y then PInf else MInf)"

text \<open>\<open>clip\<close> of \<open>algo.h\<close> on every value of \<open>double\<close>: \<open>val > ub\<close> is \<open>ub < val\<close>.\<close>

definition clip_double :: "double \<Rightarrow> double \<Rightarrow> double \<Rightarrow> double" where
  "clip_double val lb ub =
     (if double_less ub val then ub else if double_less val lb then lb else val)"

text \<open>The value \<open>grad_d\<close> of the attractive loop and of the repulsive loop.\<close>

definition attractive_grad_d_double :: "double \<Rightarrow> double \<Rightarrow> double \<Rightarrow> double" where
  "attractive_grad_d_double attractive_grad_coeff current_d other_d =
     clip_double (double_times attractive_grad_coeff (double_minus current_d other_d))
       (Num (- 4)) (Num 4)"

definition repulsive_grad_d_double :: "double \<Rightarrow> double \<Rightarrow> double \<Rightarrow> double" where
  "repulsive_grad_d_double repulsive_grad_coeff current_d negative_d =
     (if double_less (Num 0) repulsive_grad_coeff
      then clip_double (double_times repulsive_grad_coeff (double_minus current_d negative_d))
             (Num (- 4)) (Num 4)
      else Num 4)"

text \<open>A value of \<open>double\<close> that lies within \<open>[-4, 4]\<close>.\<close>

definition within_clip_bounds :: "double \<Rightarrow> bool" where
  "within_clip_bounds v = (case v of Num g \<Rightarrow> - 4 \<le> g \<and> g \<le> 4 | _ \<Rightarrow> False)"

subsection \<open>The schedule invariant\<close>

text \<open>
  The relation between the counters of a state \<open>s0\<close> and those of a later state \<open>t\<close>
  that the proofs below maintain: the arrays keep their lengths, no counter of \<open>t\<close> is
  below the one of \<open>s0\<close>, and in \<open>t\<close> the negative counter of an edge is at most its
  positive counter or at most \<open>epoch\<close>.
\<close>

definition schedule_inv :: "nat \<Rightarrow> state \<Rightarrow> real \<Rightarrow> state \<Rightarrow> bool" where
  "schedule_inv row s0 epoch t \<longleftrightarrow>
      length (epoch_of_next_sample t) = length (epoch_of_next_sample s0) \<and>
      length (epoch_of_next_negative_sample t) = length (epoch_of_next_negative_sample s0) \<and>
      (row < length (epoch_of_next_sample s0) \<longrightarrow>
         epoch_of_next_sample s0 ! row \<le> epoch_of_next_sample t ! row) \<and>
      (row < length (epoch_of_next_negative_sample s0) \<longrightarrow>
         epoch_of_next_negative_sample s0 ! row \<le> epoch_of_next_negative_sample t ! row) \<and>
      (row < length (epoch_of_next_sample t) \<longrightarrow>
         row < length (epoch_of_next_negative_sample t) \<longrightarrow>
         epoch_of_next_negative_sample t ! row \<le> epoch_of_next_sample t ! row \<or>
         epoch_of_next_negative_sample t ! row \<le> epoch)"

subsection \<open>Concrete inputs\<close>

text \<open>
  A configuration with two output dimensions and \<open>a = b = 1\<close>, a generator that always
  returns the same value, a clock that always reads \<open>0\<close>, and a store whose only non-zero
  cell is cell \<open>2\<close>: with two components per row and the embedding at address \<open>0\<close>,
  vertex \<open>0\<close> is at \<open>(0, 0)\<close> and vertex \<open>1\<close> at \<open>(1, 0)\<close>.
\<close>

definition scenario_params :: UMAPParams where
  "scenario_params =
     \<lparr>n_components = 2, params_a = 1, params_b = 1, negative_sample_rate = 5,
      repulsion_strength = 1, initial_alpha = 1, params_n_epochs = 100, callback = None\<rparr>"

definition const_rng :: "32 word \<Rightarrow> rng" where
  "const_rng r seed subsequence p = r"

definition fixed_clock :: "nat \<Rightarrow> 64 word" where
  "fixed_clock n = 0"

definition zero_mem :: mem where
  "zero_mem addr = 0"

definition unit_mem :: mem where
  "unit_mem addr = (if addr = 2 then 1 else 0)"

text \<open>The edge list of the thresholding scenario, and one with a weight below the threshold.\<close>

definition thresholding_edges :: COO where
  "thresholding_edges = \<lparr>rows = [0, 1, 2], cols = [1, 2, 0], vals = [1 / 100, 1 / 2, 1]\<rparr>"

definition weak_edges :: COO where
  "weak_edges = \<lparr>rows = [0, 1], cols = [1, 0], vals = [1 / 1000, 1]\<rparr>"

text \<open>A single edge from vertex \<open>0\<close> to vertex \<open>1\<close>, and a budget of two epochs.\<close>

definition single_edge :: COO where
  "single_edge = \<lparr>rows = [0], cols = [1], vals = [1]\<rparr>"

definition two_epoch_params :: UMAPParams where
  "two_epoch_params = scenario_params\<lparr>params_n_epochs := 2\<rparr>"

section \<open>Properties\<close>

subsection \<open>Evaluation and general lemmas\<close>

lemmas model_defs = epoch_body_def optimize_batch_kernel_def
  optimize_batch_kernel_thread_def negative_sample_draw_def positive_sample_stage_def
  attractive_update_def repulsive_update_def attractive_grad_d_def repulsive_grad_d_def
  attractive_grad_def repulsive_grad_def clip_def rdist_def atomicAdd_def upto_int_def
  float2int_def row_in_bounds_def negative_sample_index_def layout_init_def
  negative_schedule_def on_epoch_end_def make_epochs_per_sample_def
  scenario_params_def const_rng_def fixed_clock_def unit_mem_def zero_mem_def
  signed_modulo_int_def Let_def

lemma fold_unchanged: "(\<And>x s. f x s = s) \<Longrightarrow> fold f xs s = s"
  by (induction xs arbitrary: s) simp_all

lemma upto_int_Suc: "map int [0..<Suc k] = map int [0..<k] @ [int k]"
  by simp

lemma atomicAdd_zero: "atomicAdd m p 0 = m"
  by (simp add: atomicAdd_def)

lemma foldM_preserves:
  assumes "foldM f xs s = Inr s'" and "P s"
    and "\<And>x t t'. P t \<Longrightarrow> f x t = Inr t' \<Longrightarrow> P t'"
  shows "P s'"
  using assms(1,2)
proof (induction xs arbitrary: s)
  case Nil
  then show ?case by simp
next
  case (Cons x xs)
  from Cons.prems(1) obtain t where fx: "f x s = Inr t" and rest: "foldM f xs t = Inr s'"
    by (auto split: sum.splits)
  from assms(3) [OF Cons.prems(2) fx] have "P t" .
  with rest show ?case by (rule Cons.IH)
qed

lemma clip_bounds: "lb \<le> ub \<Longrightarrow> lb \<le> clip val lb ub \<and> clip val lb ub \<le> ub"
  by (simp add: clip_def)


text \<open>
  A run of one edge \<open>(0, 1)\<close> with \<open>epochs_per_sample = [1]\<close>, as the schedule builder
  gives for a single edge, over two epochs in fit mode. The edge is not due in epoch \<open>0\<close>
  and is sampled in epoch \<open>1\<close>.
\<close>

lemma single_edge_run_1:
  "run_epochs scenario_params (const_rng 0) fixed_clock 0 2 0 2 [0] [1] 1 [1] True
     (negative_schedule scenario_params 1 [1]) 1 2 1
     (layout_init scenario_params 1 [1] unit_mem) =
   Inr \<lparr>emb = unit_mem, epoch_of_next_negative_sample = [1 / 5],
        epoch_of_next_sample = [1], layout_alpha = 1\<rparr>"
  by (simp add: model_defs)

lemma single_edge_run_2:
  "run_epochs scenario_params (const_rng 0) fixed_clock 0 2 0 2 [0] [1] 1 [1] True
     (negative_schedule scenario_params 1 [1]) 1 2 2
     (layout_init scenario_params 1 [1] unit_mem) =
   Inr \<lparr>emb = unit_mem(0 := 1, 2 := 0, 1 := 0, 3 := 0),
        epoch_of_next_negative_sample = [1], epoch_of_next_sample = [2],
        layout_alpha = 1 / 2\<rparr>"
  by (simp add: numeral_2_eq_2 model_defs upt_rec)

text \<open>
  A run over the schedule that the builder gives for the weights \<open>[0, 1]\<close>, whose first
  entry is the sentinel.
\<close>

lemma sentinel_schedule: "make_epochs_per_sample [0, 1] 2 2 = [- 1, 1]"
  by (simp add: model_defs)

lemma sentinel_run_1:
  "run_epochs scenario_params (const_rng 0) fixed_clock 0 2 0 2 [0, 1] [1, 0] 2
     (make_epochs_per_sample [0, 1] 2 2) True
     (negative_schedule scenario_params 2 (make_epochs_per_sample [0, 1] 2 2)) 1 2 1
     (layout_init scenario_params 2 (make_epochs_per_sample [0, 1] 2 2) unit_mem) =
   Inr \<lparr>emb = unit_mem(0 := 1, 2 := 0, 1 := 0, 3 := 0),
        epoch_of_next_negative_sample = [0, 1 / 5],
        epoch_of_next_sample = [- 2, 1], layout_alpha = 1\<rparr>"
  by (simp add: model_defs upt_rec)

subsection \<open>The learning rate\<close>

lemma run_epochs_Suc:
  assumes "run_epochs params gen seed_of head_embedding head_n tail_embedding tail_n head tail
     nnz epochs_per_sample move_other epochs_per_negative_sample gamma n_epochs (Suc k) s0
     = Inr s'"
  obtains t where "run_epochs params gen seed_of head_embedding head_n tail_embedding tail_n
     head tail nnz epochs_per_sample move_other epochs_per_negative_sample gamma n_epochs k s0
     = Inr t"
    and "epoch_body params gen seed_of head_embedding head_n tail_embedding tail_n head tail
     nnz epochs_per_sample move_other epochs_per_negative_sample gamma n_epochs k t = Inr s'"
  using assms by (auto split: sum.splits)


lemma alpha_after_epoch:
  assumes "run_epochs params gen seed_of head_embedding head_n tail_embedding tail_n head tail
     nnz epochs_per_sample move_other epochs_per_negative_sample gamma n_epochs (Suc k) s0
     = Inr s"
  shows "layout_alpha s = initial_alpha params * (1 - real k / real_of_int n_epochs)"
proof -
  from assms obtain t where
    "epoch_body params gen seed_of head_embedding head_n tail_embedding tail_n head tail
       nnz epochs_per_sample move_other epochs_per_negative_sample gamma n_epochs k t = Inr s"
    by (rule run_epochs_Suc)
  then show ?thesis
    by (auto simp: epoch_body_def Let_def split: sum.splits)
qed

lemma alpha_at_epoch:
  assumes "run_epochs params gen seed_of head_embedding head_n tail_embedding tail_n head tail
     nnz epochs_per_sample move_other epochs_per_negative_sample gamma n_epochs k
     (layout_init params nnz' eps m) = Inr s"
  shows "layout_alpha s =
           (if k = 0 then initial_alpha params
            else initial_alpha params * (1 - real (k - 1) / real_of_int n_epochs))"
proof (cases k)
  case 0
  with assms show ?thesis by (auto simp: layout_init_def)
next
  case (Suc j)
  with assms alpha_after_epoch show ?thesis by simp
qed

lemma annealing_monotone:
  fixes A :: real
  assumes "0 \<le> A" and "0 < N" and "k \<le> k'"
  shows "(if k' = 0 then A else A * (1 - real (k' - 1) / real_of_int N))
           \<le> (if k = 0 then A else A * (1 - real (k - 1) / real_of_int N))"
proof -
  have step: "A * (1 - real j' / real_of_int N) \<le> A * (1 - real j / real_of_int N)"
    if "j \<le> j'" for j j'
  proof -
    from that assms(2) have "real j / real_of_int N \<le> real j' / real_of_int N"
      by (simp add: divide_right_mono)
    then show ?thesis
      using assms(1) by (intro mult_left_mono) simp_all
  qed
  have top: "A * (1 - real j / real_of_int N) \<le> A" for j
  proof -
    from assms(2) have "0 \<le> real j / real_of_int N" by simp
    then have "A * (1 - real j / real_of_int N) \<le> A * 1"
      using assms(1) by (intro mult_left_mono) simp_all
    then show ?thesis by simp
  qed
  show ?thesis
  proof (cases k)
    case 0
    show ?thesis
    proof (cases k')
      case 0
      with \<open>k = 0\<close> show ?thesis by simp
    next
      case (Suc j')
      with \<open>k = 0\<close> top [of j'] show ?thesis by simp
    qed
  next
    case (Suc j)
    with assms(3) obtain j' where "k' = Suc j'" and "j \<le> j'"
      by (cases k') auto
    with Suc step [of j j'] show ?thesis by simp
  qed
qed

text \<open>
  Claim C1, as amended. The learning rate that the kernel receives in epoch \<open>k\<close> is the
  value of the driver's \<open>alpha\<close> after \<open>k\<close> iterations of the loop. It is
  \<open>initial_alpha\<close> in epoch \<open>0\<close>, and in an epoch \<open>k \<ge> 1\<close> it is
  \<open>initial_alpha * (1 - (k - 1) / n_epochs)\<close>, the value computed at the end of epoch
  \<open>k - 1\<close>. With \<open>initial_alpha \<ge> 0\<close> and \<open>n_epochs > 0\<close> it does not increase from one
  epoch to a later one.
\<close>

theorem learning_rate_schedule:
  assumes "run_epochs params gen seed_of head_embedding head_n tail_embedding tail_n head tail
     nnz epochs_per_sample move_other epochs_per_negative_sample gamma n_epochs k
     (layout_init params nnz epochs_per_sample m) = Inr s"
  shows "layout_alpha s =
           (if k = 0 then initial_alpha params
            else initial_alpha params * (1 - real (k - 1) / real_of_int n_epochs)) \<and>
         (\<forall>k' s'. k \<le> k' \<and> 0 \<le> initial_alpha params \<and> 0 < n_epochs \<and>
            run_epochs params gen seed_of head_embedding head_n tail_embedding tail_n head
              tail nnz epochs_per_sample move_other epochs_per_negative_sample gamma n_epochs
              k' (layout_init params nnz epochs_per_sample m) = Inr s'
            \<longrightarrow> layout_alpha s' \<le> layout_alpha s)"
proof (intro conjI allI impI)
  show "layout_alpha s =
           (if k = 0 then initial_alpha params
            else initial_alpha params * (1 - real (k - 1) / real_of_int n_epochs))"
    using assms by (rule alpha_at_epoch)
next
  fix k' s'
  assume h: "k \<le> k' \<and> 0 \<le> initial_alpha params \<and> 0 < n_epochs \<and>
            run_epochs params gen seed_of head_embedding head_n tail_embedding tail_n head
              tail nnz epochs_per_sample move_other epochs_per_negative_sample gamma n_epochs
              k' (layout_init params nnz epochs_per_sample m) = Inr s'"
  then have "run_epochs params gen seed_of head_embedding head_n tail_embedding tail_n head
              tail nnz epochs_per_sample move_other epochs_per_negative_sample gamma n_epochs
              k' (layout_init params nnz epochs_per_sample m) = Inr s'"
    by simp
  then have "layout_alpha s' =
           (if k' = 0 then initial_alpha params
            else initial_alpha params * (1 - real (k' - 1) / real_of_int n_epochs))"
    by (rule alpha_at_epoch)
  moreover have "layout_alpha s =
           (if k = 0 then initial_alpha params
            else initial_alpha params * (1 - real (k - 1) / real_of_int n_epochs))"
    using assms by (rule alpha_at_epoch)
  ultimately show "layout_alpha s' \<le> layout_alpha s"
    using annealing_monotone [of "initial_alpha params" n_epochs k k'] h by simp
qed

text \<open>
  Witness for C1: the single-edge run with \<open>n_epochs = 2\<close>. The kernel of epoch \<open>1\<close>
  receives \<open>initial_alpha\<close>; after two iterations \<open>alpha\<close> is \<open>initial_alpha / 2\<close>.
\<close>

theorem learning_rate_schedule_witness:
  "layout_alpha \<lparr>emb = unit_mem, epoch_of_next_negative_sample = [1 / 5],
                 epoch_of_next_sample = [1], layout_alpha = 1\<rparr> =
     initial_alpha scenario_params * (1 - real (1 - 1) / real_of_int 2) \<and>
   layout_alpha \<lparr>emb = unit_mem(0 := 1, 2 := 0, 1 := 0, 3 := 0),
                 epoch_of_next_negative_sample = [1], epoch_of_next_sample = [2],
                 layout_alpha = 1 / 2\<rparr>
     \<le> layout_alpha \<lparr>emb = unit_mem, epoch_of_next_negative_sample = [1 / 5],
                      epoch_of_next_sample = [1], layout_alpha = 1\<rparr>"
proof -
  let ?s1 = "\<lparr>emb = unit_mem, epoch_of_next_negative_sample = [1 / 5],
              epoch_of_next_sample = [1], layout_alpha = 1\<rparr>"
  let ?s2 = "\<lparr>emb = unit_mem(0 := 1, 2 := 0, 1 := 0, 3 := 0),
              epoch_of_next_negative_sample = [1], epoch_of_next_sample = [2],
              layout_alpha = 1 / 2\<rparr>"
  note sched = learning_rate_schedule [OF single_edge_run_1]
  from sched have first: "layout_alpha ?s1 =
     initial_alpha scenario_params * (1 - real (1 - 1) / real_of_int 2)"
    by simp
  have "(1::nat) \<le> 2" and "0 \<le> initial_alpha scenario_params" and "(0::int) < 2"
    by (simp_all add: scenario_params_def)
  with sched single_edge_run_2 have "layout_alpha ?s2 \<le> layout_alpha ?s1"
    by blast
  with first show ?thesis by (rule conjI)
qed

text \<open>
  Counterexample to C1 as stated: with \<open>n_epochs = 2\<close> and \<open>initial_alpha = 1\<close> the kernel
  of epoch \<open>1\<close> receives \<open>1\<close>, not \<open>1 * (1 - 1 / 2)\<close>.
\<close>

theorem learning_rate_schedule_counterexample:
  "map_sum id layout_alpha
     (run_epochs scenario_params (const_rng 0) fixed_clock 0 2 0 2 [0] [1] 1 [1] True
        (negative_schedule scenario_params 1 [1]) 1 2 1
        (layout_init scenario_params 1 [1] unit_mem))
   \<noteq> Inr (initial_alpha scenario_params * (1 - real 1 / real_of_int 2))"
  unfolding single_edge_run_1 by (simp add: scenario_params_def)

subsection \<open>The launcher and the edge list\<close>

lemma fst_launcher:
  "fst (launcher m inp params embedding gen seed_of mem0) =
     inp\<lparr>vals := prune_weights (max_element (vals inp)) (launcher_n_epochs m params)
                     (vals inp)\<rparr>"
  by (simp add: launcher_def Let_def)

text \<open>
  Claim C2, as amended. For the edge weights \<open>[0.01, 0.5, 1.0]\<close> and \<open>n_epochs = 100\<close>
  the threshold is \<open>1.0 / 100 = 0.01\<close>; the comparison is strictly-less-than, so the edge
  of weight \<open>0.01\<close> is not zeroed: the launcher leaves the three weights as they are and
  the compaction keeps all three edges.
\<close>

theorem thresholding_scenario:
  "max_element (vals thresholding_edges) / real_of_int (launcher_n_epochs 3 scenario_params)
     = 1 / 100 \<and>
   fst (launcher 3 thresholding_edges scenario_params embedding gen seed_of mem0)
     = thresholding_edges \<and>
   coo_remove_zeros
     (fst (launcher 3 thresholding_edges scenario_params embedding gen seed_of mem0))
     = thresholding_edges"
  by (simp add: fst_launcher thresholding_edges_def scenario_params_def launcher_n_epochs_def
      prune_weights_def coo_remove_zeros_def)

text \<open>
  Counterexample to C2 as stated: after the launcher's thresholding the first weight is
  not \<open>0\<close>, and the compacted weights are not \<open>[0.5, 1.0]\<close>.
\<close>

theorem thresholding_scenario_counterexample:
  "vals (fst (launcher 3 thresholding_edges scenario_params 0 (const_rng 0) fixed_clock
                zero_mem)) ! 0 \<noteq> 0 \<and>
   vals (coo_remove_zeros
           (fst (launcher 3 thresholding_edges scenario_params 0 (const_rng 0) fixed_clock
                   zero_mem)))
     \<noteq> [1 / 2, 1]"
  by (simp add: fst_launcher thresholding_edges_def scenario_params_def launcher_n_epochs_def
      prune_weights_def coo_remove_zeros_def)

text \<open>
  Claim C4, as amended. The launcher never changes the head and tail index arrays of the
  caller's edge list. It overwrites the caller's weight array in place: a weight below
  \<open>max_weight / n_epochs\<close> becomes \<open>0\<close>, every other weight stays. The schedule builder,
  the driver and the kernel receive the arrays of the compacted copy and return none of
  them.
\<close>

theorem launcher_edge_list_effect:
  "rows (fst (launcher m inp params embedding gen seed_of mem0)) = rows inp \<and>
   cols (fst (launcher m inp params embedding gen seed_of mem0)) = cols inp \<and>
   length (vals (fst (launcher m inp params embedding gen seed_of mem0))) =
     length (vals inp) \<and>
   (\<forall>i < length (vals inp).
      vals (fst (launcher m inp params embedding gen seed_of mem0)) ! i =
        (if vals inp ! i < max_element (vals inp) / real_of_int (launcher_n_epochs m params)
         then 0 else vals inp ! i))"
  by (simp add: fst_launcher prune_weights_def)

text \<open>Witness for C4: the weights \<open>[0.001, 1]\<close> with \<open>n_epochs = 100\<close>.\<close>

theorem launcher_edge_list_effect_witness:
  "rows (fst (launcher 2 weak_edges scenario_params 0 (const_rng 0) fixed_clock zero_mem))
     = [0, 1] \<and>
   vals (fst (launcher 2 weak_edges scenario_params 0 (const_rng 0) fixed_clock zero_mem)) ! 0
     = 0 \<and>
   vals (fst (launcher 2 weak_edges scenario_params 0 (const_rng 0) fixed_clock zero_mem)) ! 1
     = 1"
  using launcher_edge_list_effect
          [of 2 weak_edges scenario_params 0 "const_rng 0" fixed_clock zero_mem]
  by (simp add: weak_edges_def scenario_params_def launcher_n_epochs_def)

text \<open>
  Counterexample to C4 as stated: the launcher changes the caller's weight array
  \<open>[0.001, 1]\<close>.
\<close>

theorem launcher_edge_list_counterexample:
  "vals (fst (launcher 2 weak_edges scenario_params 0 (const_rng 0) fixed_clock zero_mem))
     \<noteq> vals weak_edges"
  by (simp add: fst_launcher weak_edges_def scenario_params_def launcher_n_epochs_def
      prune_weights_def)

subsection \<open>The clip bound\<close>

text \<open>On finite values the functions on \<open>double\<close> are the functions of the kernel model.\<close>

lemma clip_double_Num:
  "clip_double (Num v) (Num lb) (Num ub) = Num (clip v lb ub)"
  by (simp add: clip_double_def clip_def)

lemma attractive_grad_d_double_Num:
  "attractive_grad_d_double (Num c) (Num x) (Num y) = Num (attractive_grad_d c x y)"
  by (simp add: attractive_grad_d_double_def attractive_grad_d_def clip_double_Num)

lemma repulsive_grad_d_double_Num:
  "repulsive_grad_d_double (Num c) (Num x) (Num y) = Num (repulsive_grad_d c x y)"
  by (simp add: repulsive_grad_d_double_def repulsive_grad_d_def clip_double_Num)

lemma clip_double_cases:
  "clip_double val (Num (- 4)) (Num 4) = NaN \<longleftrightarrow> val = NaN"
  "val \<noteq> NaN \<Longrightarrow> within_clip_bounds (clip_double val (Num (- 4)) (Num 4))"
  by (cases val; simp add: clip_double_def within_clip_bounds_def)+

lemma within_clip_bounds_Num: "within_clip_bounds (Num g) \<longleftrightarrow> - 4 \<le> g \<and> g \<le> 4"
  by (simp add: within_clip_bounds_def)

text \<open>
  Claim C6, as amended. The value \<open>grad_d\<close> of a gradient step, before the
  multiplication by \<open>alpha\<close>, lies within \<open>[-4, 4]\<close> whenever it is not NaN, and it is
  NaN exactly when the product \<open>coeff * (current[d] - sample[d])\<close> that the step hands
  to \<open>clip\<close> is NaN (for a repulsive step: when the coefficient is positive and the
  product is NaN); \<open>clip\<close> returns a NaN unchanged. The constant \<open>4.0\<close> of the
  fallback branch and every infinite product are within the bound. In the kernel model,
  whose values are finite, every iteration of the attractive and of the repulsive loop
  adds \<open>g * alpha\<close> (and \<open>- g * alpha\<close> on the tail cell) with \<open>- 4 \<le> g \<le> 4\<close>.
\<close>

theorem grad_d_within_bounds:
  "(attractive_grad_d_double coeff current_d other_d = NaN \<longleftrightarrow>
      double_times coeff (double_minus current_d other_d) = NaN) \<and>
   (attractive_grad_d_double coeff current_d other_d \<noteq> NaN \<longrightarrow>
      within_clip_bounds (attractive_grad_d_double coeff current_d other_d)) \<and>
   (repulsive_grad_d_double coeff current_d other_d = NaN \<longleftrightarrow>
      double_less (Num 0) coeff \<and>
      double_times coeff (double_minus current_d other_d) = NaN) \<and>
   (repulsive_grad_d_double coeff current_d other_d \<noteq> NaN \<longrightarrow>
      within_clip_bounds (repulsive_grad_d_double coeff current_d other_d)) \<and>
   (\<exists>g. - 4 \<le> g \<and> g \<le> 4 \<and>
        attractive_update c alpha move_other current other d m =
          (if move_other
           then atomicAdd (atomicAdd m (current + d) (g * alpha)) (other + d) (- g * alpha)
           else atomicAdd m (current + d) (g * alpha))) \<and>
   (\<exists>g. - 4 \<le> g \<and> g \<le> 4 \<and>
        repulsive_update c alpha current negative_sample d m =
          atomicAdd m (current + d) (g * alpha))"
proof (intro conjI)
  show "attractive_grad_d_double coeff current_d other_d = NaN \<longleftrightarrow>
      double_times coeff (double_minus current_d other_d) = NaN"
    by (simp add: attractive_grad_d_double_def clip_double_cases(1))
  show "attractive_grad_d_double coeff current_d other_d \<noteq> NaN \<longrightarrow>
      within_clip_bounds (attractive_grad_d_double coeff current_d other_d)"
    by (simp add: attractive_grad_d_double_def clip_double_cases)
  show "repulsive_grad_d_double coeff current_d other_d = NaN \<longleftrightarrow>
      double_less (Num 0) coeff \<and>
      double_times coeff (double_minus current_d other_d) = NaN"
    by (simp add: repulsive_grad_d_double_def clip_double_cases(1))
  show "repulsive_grad_d_double coeff current_d other_d \<noteq> NaN \<longrightarrow>
      within_clip_bounds (repulsive_grad_d_double coeff current_d other_d)"
    by (simp add: repulsive_grad_d_double_def clip_double_cases within_clip_bounds_Num)
next
  let ?g = "attractive_grad_d c (m (current + d)) (m (other + d))"
  have "within_clip_bounds (attractive_grad_d_double (Num c) (Num (m (current + d)))
          (Num (m (other + d))))"
    by (simp add: attractive_grad_d_double_def clip_double_cases)
  then have "- 4 \<le> ?g \<and> ?g \<le> 4"
    by (simp add: attractive_grad_d_double_Num within_clip_bounds_Num)
  then show "\<exists>g. - 4 \<le> g \<and> g \<le> 4 \<and>
        attractive_update c alpha move_other current other d m =
          (if move_other
           then atomicAdd (atomicAdd m (current + d) (g * alpha)) (other + d) (- g * alpha)
           else atomicAdd m (current + d) (g * alpha))"
    by (intro exI [of _ ?g]) (simp add: attractive_update_def Let_def)
next
  let ?g = "repulsive_grad_d c (m (current + d)) (m (negative_sample + d))"
  have "within_clip_bounds (repulsive_grad_d_double (Num c) (Num (m (current + d)))
          (Num (m (negative_sample + d))))"
    by (simp add: repulsive_grad_d_double_def clip_double_cases within_clip_bounds_Num)
  then have "- 4 \<le> ?g \<and> ?g \<le> 4"
    by (simp add: repulsive_grad_d_double_Num within_clip_bounds_Num)
  then show "\<exists>g. - 4 \<le> g \<and> g \<le> 4 \<and>
        repulsive_update c alpha current negative_sample d m =
          atomicAdd m (current + d) (g * alpha)"
    by (intro exI [of _ ?g]) (simp add: repulsive_update_def Let_def)
qed

text \<open>
  Witness for C6: a finite product above the bound, an infinite product below it, the
  fallback for a coefficient \<open>0\<close>, and the fallback for a NaN coefficient.
\<close>

theorem grad_d_within_bounds_witness:
  "attractive_grad_d_double (Num (- 1)) (Num 0) (Num 10) = Num 4 \<and>
   within_clip_bounds (attractive_grad_d_double (Num (- 1)) (Num 0) (Num 10)) \<and>
   attractive_grad_d_double (Num (- 1)) PInf (Num 0) = Num (- 4) \<and>
   within_clip_bounds (attractive_grad_d_double (Num (- 1)) PInf (Num 0)) \<and>
   within_clip_bounds (repulsive_grad_d_double (Num 0) (Num 0) (Num 0)) \<and>
   within_clip_bounds (repulsive_grad_d_double NaN (Num 0) (Num 1))"
  using grad_d_within_bounds [of "Num (- 1)" "Num 0" "Num 10"]
    grad_d_within_bounds [of "Num (- 1)" PInf "Num 0"]
    grad_d_within_bounds [of "Num 0" "Num 0" "Num 0"]
    grad_d_within_bounds [of NaN "Num 0" "Num 1"]
  by (simp add: attractive_grad_d_double_def repulsive_grad_d_double_def clip_double_def
      scale_inf_def)

text \<open>
  Counterexample to C6 as stated. When a cell of the current row is NaN, the squared
  distance is NaN, the test \<open>dist_squared > 0.0\<close> fails and the attractive coefficient
  stays \<open>0.0\<close>; the product \<open>0.0 * (NaN - 0)\<close> is NaN and \<open>clip\<close> returns it, so
  \<open>grad_d\<close> is NaN, which is not within \<open>[-4, 4]\<close>. The same happens for a zero
  coefficient and an infinite difference.
\<close>

theorem grad_d_within_bounds_counterexample:
  "attractive_grad_d_double (Num 0) NaN (Num 0) = NaN \<and>
   \<not> within_clip_bounds (attractive_grad_d_double (Num 0) NaN (Num 0)) \<and>
   attractive_grad_d_double (Num 0) PInf (Num 0) = NaN \<and>
   \<not> within_clip_bounds (attractive_grad_d_double (Num 0) PInf (Num 0))"
  by (simp add: attractive_grad_d_double_def clip_double_def within_clip_bounds_def
      scale_inf_def)

subsection \<open>The epoch schedule builder\<close>

lemma max_element_Max: "xs \<noteq> [] \<Longrightarrow> max_element xs = Max (set xs)"
proof (cases xs)
  case Nil
  assume "xs \<noteq> []"
  with Nil show ?thesis by simp
next
  case (Cons x ys)
  then show ?thesis
    using Max.set_eq_fold [of x ys] by simp
qed

lemma max_element_unique:
  assumes "w \<in> set xs" and "\<forall>x\<in>set xs. x \<le> w"
  shows "max_element xs = w"
proof -
  from assms(1) have ne: "xs \<noteq> []" by auto
  have "Max (set xs) = w"
    using assms by (intro Max_eqI) auto
  with ne show ?thesis by (simp add: max_element_Max)
qed


text \<open>
  Claim C8. For the weights \<open>weights[0 .. weights_n)\<close> with maximum \<open>weight_max\<close> and
  an epoch budget \<open>n_epochs\<close>, the builder returns \<open>weights_n\<close> values, and the value for
  the weight \<open>w\<close> at index \<open>i\<close> is \<open>n_epochs / v\<close> when \<open>v = n_epochs * (w / weight_max)\<close>
  is positive, and \<open>- 1\<close> otherwise.
\<close>

theorem make_epochs_per_sample_entry:
  assumes "nat weights_n \<le> length weights" and "i < nat weights_n"
    and "weight_max \<in> set (take (nat weights_n) weights)"
    and "\<forall>w\<in>set (take (nat weights_n) weights). w \<le> weight_max"
  shows "length (make_epochs_per_sample weights weights_n n_epochs) = nat weights_n \<and>
         make_epochs_per_sample weights weights_n n_epochs ! i =
           (let v = real_of_int n_epochs * (weights ! i / weight_max)
            in if v > 0 then real_of_int n_epochs / v else - 1)"
proof -
  have "max_element (take (nat weights_n) weights) = weight_max"
    using assms(3,4) by (rule max_element_unique)
  with assms(1,2) show ?thesis
    by (simp add: make_epochs_per_sample_def Let_def)
qed


text \<open>Witness for C8: the weights \<open>[0.5, 1, 0]\<close> with \<open>n_epochs = 10\<close>.\<close>

theorem make_epochs_per_sample_entry_witness:
  "make_epochs_per_sample [1 / 2, 1, 0] 3 10 ! 0 = 2 \<and>
   make_epochs_per_sample [1 / 2, 1, 0] 3 10 ! 2 = - 1"
  using make_epochs_per_sample_entry [of 3 "[1 / 2, 1, 0]" 0 1 10]
    make_epochs_per_sample_entry [of 3 "[1 / 2, 1, 0]" 2 1 10]
  by simp

subsection \<open>The candidate vertex of a negative sample\<close>

lemma smod_nonneg: "0 \<le> (x::int) \<Longrightarrow> 0 < y \<Longrightarrow> 0 \<le> x smod y \<and> x smod y < y"
  by (simp add: signed_modulo_int_def sgn_if)

lemma smod_neg: "(x::int) < 0 \<Longrightarrow> 0 < y \<Longrightarrow> - y < x smod y \<and> x smod y \<le> 0"
  by (simp add: signed_modulo_int_def sgn_if)


text \<open>
  Claim C10, as amended. With \<open>tail_n > 0\<close>, the candidate index \<open>r % tail_n\<close> lies in
  \<open>[0, tail_n)\<close> for every \<open>r \<ge> 0\<close>, and the read of the tail row is then in bounds. For
  a negative \<open>r\<close> the remainder of C++ has the sign of \<open>r\<close>: it lies in
  \<open>(- tail_n, 0]\<close>.
\<close>

theorem negative_sample_index_range:
  "(0 \<le> sint r \<and> 0 < tail_n \<longrightarrow>
      0 \<le> negative_sample_index r tail_n \<and> negative_sample_index r tail_n < tail_n) \<and>
   (sint r < 0 \<and> 0 < tail_n \<longrightarrow>
      - tail_n < negative_sample_index r tail_n \<and> negative_sample_index r tail_n \<le> 0)"
  unfolding negative_sample_index_def using smod_nonneg smod_neg by blast


text \<open>Witness for C10: \<open>7 % 5 = 2\<close> and \<open>- 7 % 5 = - 2\<close>.\<close>

theorem negative_sample_index_range_witness:
  "0 \<le> sint (7 :: 32 word) \<and> sint (- 7 :: 32 word) < 0 \<and>
   negative_sample_index 7 5 = 2 \<and> negative_sample_index (- 7) 5 = - 2"
  using negative_sample_index_range [of 7 5] negative_sample_index_range [of "- 7" 5]
  by (simp add: negative_sample_index_def signed_modulo_int_def)

text \<open>
  Counterexample to C10 as stated: for \<open>r = - 1\<close> and \<open>tail_n = 5\<close> the index is \<open>- 1\<close>,
  outside \<open>[0, 5)\<close>, and a draw with this \<open>r\<close> reads outside the tail embedding.
\<close>

theorem negative_sample_index_counterexample:
  "\<not> (0 \<le> negative_sample_index (- 1) 5 \<and> negative_sample_index (- 1) 5 < 5) \<and>
   negative_sample_draw scenario_params (const_rng (- 1)) 0 5 0 0 1 1 0 0 0 zero_mem =
     Inl IllegalAddress"
  by (simp add: model_defs)

subsection \<open>Degenerate distances in the negative sampling stage\<close>

lemma repulsive_fallback_fold:
  "fold (repulsive_update 0 alpha current negative_sample) (map int [0..<k]) m =
     (\<lambda>addr. if current \<le> addr \<and> addr < current + int k then m addr + 4 * alpha else m addr)"
proof (induction k)
  case 0
  show ?case by auto
next
  case (Suc k)
  show ?case
    unfolding upto_int_Suc fold_append comp_def Suc.IH
    by (auto simp: repulsive_update_def repulsive_grad_d_def atomicAdd_def fun_eq_iff)
qed

lemma repulsive_fallback_loop:
  "fold (repulsive_update 0 alpha current negative_sample) (upto_int n) m =
     (\<lambda>addr. if current \<le> addr \<and> addr < current + n then m addr + 4 * alpha else m addr)"
proof (cases "0 \<le> n")
  case True
  then show ?thesis
    using repulsive_fallback_fold [of alpha current negative_sample "nat n" m]
    by (simp add: upto_int_def)
next
  case False
  then show ?thesis by (auto simp: upto_int_def fun_eq_iff)
qed


text \<open>
  Claim C5. Consider a draw of the negative sampling stage whose candidate \<open>t\<close> is a row
  of the tail embedding and is at squared distance \<open>0\<close> from the current point. If \<open>t\<close>
  equals the head vertex index \<open>j\<close> of the edge, the draw returns the store unchanged.
  Otherwise it adds \<open>4 * alpha\<close> to each of the \<open>n_components\<close> cells of the current row
  and changes no other cell. In both cases the draw returns a store, not an error.
\<close>

theorem degenerate_negative_draw:
  assumes "tail_n \<noteq> 0"
    and "t = negative_sample_index (gen seed (of_nat row) p) tail_n"
    and "row_in_bounds tail_n (n_components params) t"
    and "rdist m current (tail_embedding + t * n_components params) (n_components params) = 0"
  shows "negative_sample_draw params gen tail_embedding tail_n j current alpha gamma seed row p m =
           (if t = j then Inr m
            else Inr (\<lambda>addr. if current \<le> addr \<and> addr < current + n_components params
                             then m addr + 4 * alpha else m addr))"
  using assms by (simp add: negative_sample_draw_def Let_def repulsive_fallback_loop)


text \<open>
  Witness for C5: all points at the origin, head vertex \<open>0\<close>, two vertices. The candidate
  \<open>1\<close> moves the current row by \<open>4 * alpha = 2\<close>; the candidate \<open>0\<close> is skipped.
\<close>

theorem degenerate_negative_draw_witness:
  "negative_sample_draw scenario_params (const_rng 1) 0 2 0 0 (1 / 2) 1 0 0 0 zero_mem =
     Inr (\<lambda>addr. if 0 \<le> addr \<and> addr < 0 + n_components scenario_params
                  then zero_mem addr + 4 * (1 / 2) else zero_mem addr) \<and>
   negative_sample_draw scenario_params (const_rng 0) 0 2 0 0 (1 / 2) 1 0 0 0 zero_mem =
     Inr zero_mem"
proof -
  have n0: "(2::int) \<noteq> 0" by simp
  have t1: "1 = negative_sample_index (const_rng 1 0 (of_nat 0) 0) 2"
    and t0: "0 = negative_sample_index (const_rng 0 0 (of_nat 0) 0) 2"
    by (simp_all add: const_rng_def negative_sample_index_def signed_modulo_int_def)
  have b1: "row_in_bounds 2 (n_components scenario_params) 1"
    and b0: "row_in_bounds 2 (n_components scenario_params) 0"
    by (simp_all add: row_in_bounds_def)
  have d1: "rdist zero_mem 0 (0 + 1 * n_components scenario_params)
              (n_components scenario_params) = 0"
    and d0: "rdist zero_mem 0 (0 + 0 * n_components scenario_params)
              (n_components scenario_params) = 0"
    by (simp_all add: rdist_def upto_int_def zero_mem_def scenario_params_def upt_rec)
  from degenerate_negative_draw
         [where tail_n = 2 and t = 1 and gen = "const_rng 1" and seed = 0 and row = 0
            and p = 0 and params = scenario_params and m = zero_mem and current = 0
            and tail_embedding = 0 and j = 0 and alpha = "1 / 2" and gamma = 1,
          OF n0 t1 b1 d1]
    degenerate_negative_draw
         [where tail_n = 2 and t = 0 and gen = "const_rng 0" and seed = 0 and row = 0
            and p = 0 and params = scenario_params and m = zero_mem and current = 0
            and tail_embedding = 0 and j = 0 and alpha = "1 / 2" and gamma = 1,
          OF n0 t0 b0 d0]
  show ?thesis by simp
qed

subsection \<open>The attractive update\<close>

lemma attractive_grad_d_zero: "attractive_grad_d 0 x y = 0"
  by (simp add: attractive_grad_d_def clip_def)

lemma rdist_self: "rdist m X X n = 0"
  unfolding rdist_def by (rule fold_unchanged) simp

lemma attractive_update_frame:
  "addr \<noteq> current + d \<Longrightarrow>
   attractive_update coeff alpha False current other d m addr = m addr"
  by (simp add: attractive_update_def atomicAdd_def Let_def)

lemma attractive_frame_fold:
  "\<not> (current \<le> addr \<and> addr < current + int k) \<Longrightarrow>
   fold (attractive_update coeff alpha False current other) (map int [0..<k]) m addr = m addr"
proof (induction k)
  case 0
  show ?case by simp
next
  case (Suc k)
  from Suc.prems have ne: "addr \<noteq> current + int k"
    and out: "\<not> (current \<le> addr \<and> addr < current + int k)"
    by auto
  show ?case
    unfolding upto_int_Suc fold_append comp_def
    by (simp add: attractive_update_frame [OF ne] Suc.IH [OF out])
qed

lemma attractive_frame:
  assumes "\<not> (current \<le> addr \<and> addr < current + n_components params)"
  shows "positive_sample_stage params False alpha current other m addr = m addr"
proof (cases "0 \<le> n_components params")
  case True
  with assms show ?thesis
    unfolding positive_sample_stage_def Let_def upto_int_def
    by (intro attractive_frame_fold) simp
next
  case False
  then show ?thesis by (simp add: positive_sample_stage_def upto_int_def)
qed

lemma attractive_pair_fold:
  assumes "other + n \<le> current \<or> current + n \<le> other" and "int k \<le> n"
  shows "fold (attractive_update coeff alpha True current other) (map int [0..<k]) m =
     (\<lambda>addr. if current \<le> addr \<and> addr < current + int k
              then m addr + attractive_grad_d coeff (m addr) (m (other + (addr - current))) * alpha
              else if other \<le> addr \<and> addr < other + int k
              then m addr - attractive_grad_d coeff (m (current + (addr - other))) (m addr) * alpha
              else m addr)"
  using assms(2)
proof (induction k)
  case 0
  show ?case by auto
next
  case (Suc k)
  then have IH: "fold (attractive_update coeff alpha True current other) (map int [0..<k]) m =
     (\<lambda>addr. if current \<le> addr \<and> addr < current + int k
              then m addr + attractive_grad_d coeff (m addr) (m (other + (addr - current))) * alpha
              else if other \<le> addr \<and> addr < other + int k
              then m addr - attractive_grad_d coeff (m (current + (addr - other))) (m addr) * alpha
              else m addr)"
    by simp
  from Suc.prems assms(1) have far: "other + int k < current \<or> current + int k < other"
    by auto
  show ?case
    unfolding upto_int_Suc fold_append comp_def IH
    using far by (auto simp: attractive_update_def atomicAdd_def Let_def fun_eq_iff)
qed

lemma attractive_same_row:
  "positive_sample_stage params move_other alpha current current m = m"
proof -
  have "attractive_update 0 alpha move_other current current d s = s" for d s
    by (simp add: attractive_update_def attractive_grad_d_zero atomicAdd_zero Let_def)
  then have "fold (attractive_update 0 alpha move_other current current) is m = m" for "is"
    by (rule fold_unchanged)
  then show ?thesis
    by (simp add: positive_sample_stage_def rdist_self)
qed

lemma attractive_fit_rows:
  assumes "current = embedding + j * n_components params"
    and "other = embedding + k * n_components params"
    and "0 \<le> d" and "d < n_components params"
  shows "positive_sample_stage params True alpha current other m (other + d) - m (other + d) =
         - (positive_sample_stage params True alpha current other m (current + d) - m (current + d))"
proof (cases "j = k")
  case True
  with assms(1,2) show ?thesis by (simp add: attractive_same_row)
next
  case False
  let ?n = "n_components params"
  from assms(3,4) have npos: "0 < ?n" by simp
  have "j < k \<or> k < j" using False by auto
  then have "(j + 1) * ?n \<le> k * ?n \<or> (k + 1) * ?n \<le> j * ?n"
    using npos by (auto intro: mult_right_mono)
  then have disj: "other + ?n \<le> current \<or> current + ?n \<le> other"
    using assms(1,2) by (auto simp: algebra_simps)
  define c where
    "c = (if rdist m current other ?n > 0 then attractive_grad (rdist m current other ?n) params
          else 0)"
  have nn: "int (nat ?n) = ?n" using npos by simp
  have "positive_sample_stage params True alpha current other m =
        fold (attractive_update c alpha True current other) (map int [0..<nat ?n]) m"
    by (simp add: positive_sample_stage_def Let_def upto_int_def c_def)
  also have "\<dots> =
     (\<lambda>addr. if current \<le> addr \<and> addr < current + ?n
              then m addr + attractive_grad_d c (m addr) (m (other + (addr - current))) * alpha
              else if other \<le> addr \<and> addr < other + ?n
              then m addr - attractive_grad_d c (m (current + (addr - other))) (m addr) * alpha
              else m addr)"
    using attractive_pair_fold [OF disj, of "nat ?n" c alpha m] unfolding nn by simp
  finally have eq: "positive_sample_stage params True alpha current other m =
     (\<lambda>addr. if current \<le> addr \<and> addr < current + ?n
              then m addr + attractive_grad_d c (m addr) (m (other + (addr - current))) * alpha
              else if other \<le> addr \<and> addr < other + ?n
              then m addr - attractive_grad_d c (m (current + (addr - other))) (m addr) * alpha
              else m addr)" .
  show ?thesis
    unfolding eq using disj assms(3,4) by auto
qed


text \<open>
  Claim C7. One iteration of the attractive loop with \<open>move_other\<close> true adds
  \<open>grad_d * alpha\<close> to the cell of the head row and its negation to the cell of the tail
  row; with \<open>move_other\<close> false it adds to the cell of the head row only. For the whole
  positive sample stage: in fit mode (head and tail embedding are the same pointer) the
  change of every cell of the tail row is the negation of the change of the cell of the
  head row in the same dimension; in transform mode no cell outside the head row
  changes, so a tail row disjoint from it receives no update.
\<close>

theorem attractive_update_antisymmetric:
  "attractive_update coeff alpha True current other d m =
     atomicAdd
       (atomicAdd m (current + d)
          (attractive_grad_d coeff (m (current + d)) (m (other + d)) * alpha))
       (other + d)
       (- (attractive_grad_d coeff (m (current + d)) (m (other + d)) * alpha)) \<and>
   attractive_update coeff alpha False current other d m =
     atomicAdd m (current + d)
       (attractive_grad_d coeff (m (current + d)) (m (other + d)) * alpha) \<and>
   (0 \<le> d \<and> d < n_components params \<longrightarrow>
      positive_sample_stage params True alpha
          (embedding + j * n_components params) (embedding + k * n_components params) m
          (embedding + k * n_components params + d)
        - m (embedding + k * n_components params + d) =
      - (positive_sample_stage params True alpha
           (embedding + j * n_components params) (embedding + k * n_components params) m
           (embedding + j * n_components params + d)
         - m (embedding + j * n_components params + d))) \<and>
   (\<not> (current \<le> addr \<and> addr < current + n_components params) \<longrightarrow>
      positive_sample_stage params False alpha current other m addr = m addr)"
proof (intro conjI impI)
  show "attractive_update coeff alpha True current other d m =
     atomicAdd
       (atomicAdd m (current + d)
          (attractive_grad_d coeff (m (current + d)) (m (other + d)) * alpha))
       (other + d)
       (- (attractive_grad_d coeff (m (current + d)) (m (other + d)) * alpha))"
    by (simp add: attractive_update_def Let_def)
next
  show "attractive_update coeff alpha False current other d m =
     atomicAdd m (current + d)
       (attractive_grad_d coeff (m (current + d)) (m (other + d)) * alpha)"
    by (simp add: attractive_update_def Let_def)
next
  assume "0 \<le> d \<and> d < n_components params"
  then show "positive_sample_stage params True alpha
          (embedding + j * n_components params) (embedding + k * n_components params) m
          (embedding + k * n_components params + d)
        - m (embedding + k * n_components params + d) =
      - (positive_sample_stage params True alpha
           (embedding + j * n_components params) (embedding + k * n_components params) m
           (embedding + j * n_components params + d)
         - m (embedding + j * n_components params + d))"
    by (intro attractive_fit_rows [OF refl refl]) simp_all
next
  assume "\<not> (current \<le> addr \<and> addr < current + n_components params)"
  then show "positive_sample_stage params False alpha current other m addr = m addr"
    by (rule attractive_frame)
qed

text \<open>
  Witness for C7: vertex \<open>0\<close> at \<open>(0, 0)\<close> and vertex \<open>1\<close> at \<open>(1, 0)\<close>, \<open>alpha = 1\<close>.
  In fit mode the first cell of the tail row moves by \<open>- 1\<close> and the first cell of the
  head row by \<open>1\<close>; in transform mode the first cell of the tail row keeps its value.
\<close>

theorem attractive_update_antisymmetric_witness:
  "positive_sample_stage scenario_params True 1 0 2 unit_mem 2 - unit_mem 2 = - 1 \<and>
   positive_sample_stage scenario_params True 1 0 2 unit_mem 0 - unit_mem 0 = 1 \<and>
   positive_sample_stage scenario_params False 1 0 2 unit_mem 2 = unit_mem 2"
proof -
  have fit: "positive_sample_stage scenario_params True 1 0 2 unit_mem =
               unit_mem(0 := 1, 2 := 0, 1 := 0, 3 := 0)"
    by (simp add: model_defs upt_rec)
  have n: "n_components scenario_params = 2" by (simp add: scenario_params_def)
  from attractive_update_antisymmetric
         [where params = scenario_params and d = 0 and embedding = 0 and j = 0 and k = 1
            and alpha = 1 and m = unit_mem and current = 0 and addr = 2 and other = 2]
  have "positive_sample_stage scenario_params True 1 0 2 unit_mem 2 - unit_mem 2 =
          - (positive_sample_stage scenario_params True 1 0 2 unit_mem 0 - unit_mem 0)"
    and "positive_sample_stage scenario_params False 1 0 2 unit_mem 2 = unit_mem 2"
    by (simp_all add: n)
  moreover have "positive_sample_stage scenario_params True 1 0 2 unit_mem 0 - unit_mem 0 = 1"
    by (simp add: fit unit_mem_def)
  ultimately show ?thesis by simp
qed

subsection \<open>The launcher runs in fit mode\<close>

lemma foldM_append:
  "foldM f (xs @ ys) s = (case foldM f xs s of Inl e \<Rightarrow> Inl e | Inr t \<Rightarrow> foldM f ys t)"
  by (induction xs arbitrary: s) (simp_all split: sum.splits)

lemma foldM_upt_prefix:
  assumes "foldM f [0..<n] s = Inr u" and "r < n"
  shows "\<exists>t t'. foldM f [0..<r] s = Inr t \<and> f r t = Inr t' \<and>
                foldM f [0..<Suc r] s = Inr t'"
proof -
  from assms(2) have "[0..<n] = [0..<Suc r] @ [Suc r..<n]"
    using upt_add_eq_append [of 0 "Suc r" "n - Suc r"] by simp
  with assms(1) obtain t' where t': "foldM f [0..<Suc r] s = Inr t'"
    by (auto simp: foldM_append split: sum.splits)
  then obtain t where "foldM f [0..<r] s = Inr t" and "f r t = Inr t'"
    by (auto simp: foldM_append split: sum.splits)
  with t' show ?thesis by blast
qed

text \<open>An epoch that returns is a run of the threads over the state before it.\<close>

lemma epoch_threads:
  assumes "run_epochs params gen seed_of head_embedding head_n tail_embedding tail_n head tail
     nnz epochs_per_sample move_other epochs_per_negative_sample gamma n_epochs (Suc k) s0
     = Inr s'"
  shows "\<exists>s u. run_epochs params gen seed_of head_embedding head_n tail_embedding tail_n head
              tail nnz epochs_per_sample move_other epochs_per_negative_sample gamma n_epochs
              k s0 = Inr s \<and>
           foldM (optimize_batch_kernel_thread params gen head_embedding head_n
                    tail_embedding tail_n head tail nnz epochs_per_sample move_other
                    epochs_per_negative_sample (layout_alpha s) (int k) gamma (seed_of k))
             [0..<nat nnz] s = Inr u \<and>
           s' = u\<lparr>emb := on_epoch_end params (emb u),
                  layout_alpha := initial_alpha params *
                    (1 - real_of_int (int k) / real_of_int n_epochs)\<rparr>"
proof -
  from assms obtain s where
    rs: "run_epochs params gen seed_of head_embedding head_n tail_embedding tail_n head
              tail nnz epochs_per_sample move_other epochs_per_negative_sample gamma n_epochs
              k s0 = Inr s"
    and body: "epoch_body params gen seed_of head_embedding head_n tail_embedding tail_n head
       tail nnz epochs_per_sample move_other epochs_per_negative_sample gamma n_epochs k s
       = Inr s'"
    by (rule run_epochs_Suc)
  from body obtain u where
    "foldM (optimize_batch_kernel_thread params gen head_embedding head_n
                    tail_embedding tail_n head tail nnz epochs_per_sample move_other
                    epochs_per_negative_sample (layout_alpha s) (int k) gamma (seed_of k))
             [0..<nat nnz] s = Inr u"
    and "s' = u\<lparr>emb := on_epoch_end params (emb u),
                  layout_alpha := initial_alpha params *
                    (1 - real_of_int (int k) / real_of_int n_epochs)\<rparr>"
    by (auto simp: epoch_body_def optimize_batch_kernel_def Let_def split: sum.splits)
  with rs show ?thesis by blast
qed

text \<open>
  A thread whose edge is due runs the positive sample stage on the store it finds, and
  its negative sampling draws start from the store that stage leaves.
\<close>

lemma thread_due:
  assumes "optimize_batch_kernel_thread params gen head_embedding head_n tail_embedding tail_n
     head tail nnz epochs_per_sample move_other epochs_per_negative_sample alpha epoch gamma
     seed r t = Inr t'"
    and "int r < nnz" and "epoch_of_next_sample t ! r \<le> real_of_int epoch"
  shows "\<exists>n. foldM (negative_sample_draw params gen tail_embedding tail_n (head ! r)
                     (head_embedding + head ! r * n_components params) alpha gamma seed r)
                [0..<n]
                (positive_sample_stage params move_other alpha
                   (head_embedding + head ! r * n_components params)
                   (tail_embedding + tail ! r * n_components params) (emb t))
              = Inr (emb t')"
  using assms
  by (auto simp: optimize_batch_kernel_thread_def Let_def split: if_splits sum.splits)

text \<open>
  Claim C9. The launcher passes the same pointer \<open>embedding\<close> as head and as tail
  embedding. Its result is the store after the \<open>n_epochs\<close> epochs of the loop run with
  \<open>move_other = True\<close> on the compacted edge list. Each of these epochs is the run of
  the kernel threads with \<open>move_other = True\<close>, one after the other, followed by the
  callback and the new \<open>alpha\<close>. Every thread of such an epoch whose edge is due runs
  the positive sample stage with \<open>move_other = True\<close>, which changes every cell of the
  tail row by the negation of the change of the cell of the head row, and its draws
  start from the store of that stage. No thread of a launcher run is run with
  \<open>move_other = False\<close>.
\<close>

theorem launcher_runs_fit_mode:
  fixes m :: int and inp :: COO and params :: UMAPParams and embedding :: int and gen :: rng
    and seed_of :: "nat \<Rightarrow> 64 word" and mem0 :: mem
  defines "N \<equiv> launcher_n_epochs m params"
    and "out \<equiv> coo_remove_zeros (fst (launcher m inp params embedding gen seed_of mem0))"
  defines "eps \<equiv> make_epochs_per_sample (vals out) (coo_nnz out) N"
  defines "run \<equiv> run_epochs params gen seed_of embedding m embedding m (rows out) (cols out)
                   (coo_nnz out) eps True (negative_schedule params (coo_nnz out) eps)
                   (repulsion_strength params) N"
    and "thread \<equiv> \<lambda>alpha k. optimize_batch_kernel_thread params gen embedding m embedding m
                   (rows out) (cols out) (coo_nnz out) eps True
                   (negative_schedule params (coo_nnz out) eps) alpha (int k)
                   (repulsion_strength params) (seed_of k)"
    and "s0 \<equiv> layout_init params (coo_nnz out) eps mem0"
  shows "snd (launcher m inp params embedding gen seed_of mem0) =
           (case run (nat N) s0 of Inl e \<Rightarrow> Inl e | Inr s \<Rightarrow> Inr (emb s)) \<and>
         (\<forall>k s s'. run k s0 = Inr s \<and> run (Suc k) s0 = Inr s' \<longrightarrow>
            (\<exists>u. foldM (thread (layout_alpha s) k) [0..<nat (coo_nnz out)] s = Inr u \<and>
               s' = u\<lparr>emb := on_epoch_end params (emb u),
                      layout_alpha := initial_alpha params *
                        (1 - real_of_int (int k) / real_of_int N)\<rparr>)) \<and>
         (\<forall>k s s' r t.
            run k s0 = Inr s \<and> run (Suc k) s0 = Inr s' \<and> r < nat (coo_nnz out) \<and>
            foldM (thread (layout_alpha s) k) [0..<r] s = Inr t \<longrightarrow>
            (\<exists>t'. thread (layout_alpha s) k r t = Inr t' \<and>
               foldM (thread (layout_alpha s) k) [0..<Suc r] s = Inr t' \<and>
               (epoch_of_next_sample t ! r \<le> real k \<longrightarrow>
                  (\<forall>d. 0 \<le> d \<and> d < n_components params \<longrightarrow>
                     positive_sample_stage params True (layout_alpha s)
                         (embedding + rows out ! r * n_components params)
                         (embedding + cols out ! r * n_components params) (emb t)
                         (embedding + cols out ! r * n_components params + d)
                       - emb t (embedding + cols out ! r * n_components params + d) =
                     - (positive_sample_stage params True (layout_alpha s)
                          (embedding + rows out ! r * n_components params)
                          (embedding + cols out ! r * n_components params) (emb t)
                          (embedding + rows out ! r * n_components params + d)
                        - emb t (embedding + rows out ! r * n_components params + d))) \<and>
                  (\<exists>n. foldM (negative_sample_draw params gen embedding m (rows out ! r)
                                (embedding + rows out ! r * n_components params)
                                (layout_alpha s) (repulsion_strength params) (seed_of k) r)
                          [0..<n]
                          (positive_sample_stage params True (layout_alpha s)
                             (embedding + rows out ! r * n_components params)
                             (embedding + cols out ! r * n_components params) (emb t))
                        = Inr (emb t')))))"
proof (intro conjI allI impI)
  show "snd (launcher m inp params embedding gen seed_of mem0) =
           (case run (nat N) s0 of Inl e \<Rightarrow> Inl e | Inr s \<Rightarrow> Inr (emb s))"
    by (simp add: launcher_def optimize_layout_def optimize_layout_loop_def Let_def
        run_def N_def out_def eps_def s0_def)
next
  fix k s s'
  assume "run k s0 = Inr s \<and> run (Suc k) s0 = Inr s'"
  then have rs: "run k s0 = Inr s" and rs': "run (Suc k) s0 = Inr s'" by simp_all
  from epoch_threads [OF rs' [unfolded run_def]] rs
  show "\<exists>u. foldM (thread (layout_alpha s) k) [0..<nat (coo_nnz out)] s = Inr u \<and>
               s' = u\<lparr>emb := on_epoch_end params (emb u),
                      layout_alpha := initial_alpha params *
                        (1 - real_of_int (int k) / real_of_int N)\<rparr>"
    unfolding run_def thread_def by auto
next
  fix k s s' r t
  assume h: "run k s0 = Inr s \<and> run (Suc k) s0 = Inr s' \<and> r < nat (coo_nnz out) \<and>
            foldM (thread (layout_alpha s) k) [0..<r] s = Inr t"
  then have rs: "run k s0 = Inr s" and rs': "run (Suc k) s0 = Inr s'"
    and r: "r < nat (coo_nnz out)"
    and pre: "foldM (thread (layout_alpha s) k) [0..<r] s = Inr t"
    by simp_all
  from epoch_threads [OF rs' [unfolded run_def]] rs
  obtain u where ku: "foldM (thread (layout_alpha s) k) [0..<nat (coo_nnz out)] s = Inr u"
    unfolding run_def thread_def by auto
  from foldM_upt_prefix [OF ku r] pre obtain t' where
    th: "thread (layout_alpha s) k r t = Inr t'"
    and post: "foldM (thread (layout_alpha s) k) [0..<Suc r] s = Inr t'"
    by auto
  from r have rn: "int r < coo_nnz out" by linarith
  have due: "(\<exists>n. foldM (negative_sample_draw params gen embedding m (rows out ! r)
                                (embedding + rows out ! r * n_components params)
                                (layout_alpha s) (repulsion_strength params) (seed_of k) r)
                          [0..<n]
                          (positive_sample_stage params True (layout_alpha s)
                             (embedding + rows out ! r * n_components params)
                             (embedding + cols out ! r * n_components params) (emb t))
                        = Inr (emb t'))"
    if "epoch_of_next_sample t ! r \<le> real k"
    using thread_due [OF th [unfolded thread_def] rn] that by simp
  have anti: "positive_sample_stage params True (layout_alpha s)
                         (embedding + rows out ! r * n_components params)
                         (embedding + cols out ! r * n_components params) (emb t)
                         (embedding + cols out ! r * n_components params + d)
                       - emb t (embedding + cols out ! r * n_components params + d) =
                     - (positive_sample_stage params True (layout_alpha s)
                          (embedding + rows out ! r * n_components params)
                          (embedding + cols out ! r * n_components params) (emb t)
                          (embedding + rows out ! r * n_components params + d)
                        - emb t (embedding + rows out ! r * n_components params + d))"
    if "0 \<le> d \<and> d < n_components params" for d
    using that by (intro attractive_fit_rows [OF refl refl]) simp_all
  from th post due anti
  show "(\<exists>t'. thread (layout_alpha s) k r t = Inr t' \<and>
               foldM (thread (layout_alpha s) k) [0..<Suc r] s = Inr t' \<and>
               (epoch_of_next_sample t ! r \<le> real k \<longrightarrow>
                  (\<forall>d. 0 \<le> d \<and> d < n_components params \<longrightarrow>
                     positive_sample_stage params True (layout_alpha s)
                         (embedding + rows out ! r * n_components params)
                         (embedding + cols out ! r * n_components params) (emb t)
                         (embedding + cols out ! r * n_components params + d)
                       - emb t (embedding + cols out ! r * n_components params + d) =
                     - (positive_sample_stage params True (layout_alpha s)
                          (embedding + rows out ! r * n_components params)
                          (embedding + cols out ! r * n_components params) (emb t)
                          (embedding + rows out ! r * n_components params + d)
                        - emb t (embedding + rows out ! r * n_components params + d))) \<and>
                  (\<exists>n. foldM (negative_sample_draw params gen embedding m (rows out ! r)
                                (embedding + rows out ! r * n_components params)
                                (layout_alpha s) (repulsion_strength params) (seed_of k) r)
                          [0..<n]
                          (positive_sample_stage params True (layout_alpha s)
                             (embedding + rows out ! r * n_components params)
                             (embedding + cols out ! r * n_components params) (emb t))
                        = Inr (emb t'))))"
    by blast
qed

text \<open>
  Witness for C9: the launcher on a single edge \<open>(0, 1)\<close> with a budget of two epochs.
  The edge is due in epoch \<open>1\<close>; vertex \<open>0\<close> moves from \<open>(0, 0)\<close> to \<open>(1, 0)\<close> and
  vertex \<open>1\<close> from \<open>(1, 0)\<close> to \<open>(0, 0)\<close>.
\<close>

lemma launcher_single_edge:
  "coo_remove_zeros
     (fst (launcher 2 single_edge two_epoch_params 0 (const_rng 0) fixed_clock unit_mem)) =
   single_edge"
  "launcher_n_epochs 2 two_epoch_params = 2"
  "coo_nnz single_edge = 1" "rows single_edge = [0]" "cols single_edge = [1]"
  "make_epochs_per_sample (vals single_edge) 1 2 = [1]"
  by (simp_all add: fst_launcher single_edge_def two_epoch_params_def scenario_params_def
      launcher_n_epochs_def prune_weights_def coo_remove_zeros_def coo_nnz_def
      make_epochs_per_sample_def)

lemma fit_run_1:
  "run_epochs two_epoch_params (const_rng 0) fixed_clock 0 2 0 2 [0] [1] 1 [1] True
     (negative_schedule two_epoch_params 1 [1]) (repulsion_strength two_epoch_params) 2 1
     (layout_init two_epoch_params 1 [1] unit_mem) =
   Inr \<lparr>emb = unit_mem, epoch_of_next_negative_sample = [1 / 5],
        epoch_of_next_sample = [1], layout_alpha = 1\<rparr>"
  by (simp add: model_defs two_epoch_params_def)

lemma fit_run_2:
  "run_epochs two_epoch_params (const_rng 0) fixed_clock 0 2 0 2 [0] [1] 1 [1] True
     (negative_schedule two_epoch_params 1 [1]) (repulsion_strength two_epoch_params) 2
     (Suc 1)
     (layout_init two_epoch_params 1 [1] unit_mem) =
   Inr \<lparr>emb = unit_mem(0 := 1, 2 := 0, 1 := 0, 3 := 0),
        epoch_of_next_negative_sample = [1], epoch_of_next_sample = [2],
        layout_alpha = 1 / 2\<rparr>"
  by (simp add: model_defs two_epoch_params_def upt_rec)

theorem launcher_runs_fit_mode_witness:
  "snd (launcher 2 single_edge two_epoch_params 0 (const_rng 0) fixed_clock unit_mem) =
     Inr (unit_mem(0 := 1, 2 := 0, 1 := 0, 3 := 0)) \<and>
   positive_sample_stage two_epoch_params True 1 0 2 unit_mem 2 - unit_mem 2 =
     - (positive_sample_stage two_epoch_params True 1 0 2 unit_mem 0 - unit_mem 0)"
proof -
  let ?s1 = "\<lparr>emb = unit_mem, epoch_of_next_negative_sample = [1 / 5],
              epoch_of_next_sample = [1], layout_alpha = 1\<rparr>"
  let ?s2 = "\<lparr>emb = unit_mem(0 := 1, 2 := 0, 1 := 0, 3 := 0),
              epoch_of_next_negative_sample = [1], epoch_of_next_sample = [2],
              layout_alpha = 1 / 2\<rparr>"
  have two: "nat 2 = Suc 1" by simp
  note fit = launcher_runs_fit_mode
    [of 2 single_edge two_epoch_params 0 "const_rng 0" fixed_clock unit_mem,
     unfolded launcher_single_edge two]
  from fit [THEN conjunct1] have a:
    "snd (launcher 2 single_edge two_epoch_params 0 (const_rng 0) fixed_clock unit_mem) =
       Inr (unit_mem(0 := 1, 2 := 0, 1 := 0, 3 := 0))"
    unfolding fit_run_2 by simp
  have row: "0 < nat 1" by simp
  have pre: "foldM (optimize_batch_kernel_thread two_epoch_params (const_rng 0) 0 2 0 2 [0]
                     [1] 1 [1] True (negative_schedule two_epoch_params 1 [1])
                     (layout_alpha ?s1) (int 1) (repulsion_strength two_epoch_params)
                     (fixed_clock 1))
               [0..<0] ?s1 = Inr ?s1"
    by simp
  have due: "epoch_of_next_sample ?s1 ! 0 \<le> real 1" by simp
  have nc: "(0::int) \<le> 0 \<and> 0 < n_components two_epoch_params"
    by (simp add: two_epoch_params_def scenario_params_def)
  from fit [THEN conjunct2, THEN conjunct2, rule_format, of 1 ?s1 ?s2 0 ?s1,
            OF conjI [OF fit_run_1 conjI [OF fit_run_2 conjI [OF row pre]]]]
    due nc
  have "positive_sample_stage two_epoch_params True 1 0 2 unit_mem 2 - unit_mem 2 =
     - (positive_sample_stage two_epoch_params True 1 0 2 unit_mem 0 - unit_mem 0)"
    by (auto simp: two_epoch_params_def scenario_params_def)
  with a show ?thesis by (rule conjI)
qed

subsection \<open>The scheduling counters\<close>

lemma float2int_floor:
  assumes "0 \<le> x" and "0 < e"
  shows "0 \<le> float2int (x / e) \<and> real_of_int (float2int (x / e)) * e \<le> x"
proof -
  let ?t = "\<lfloor>x / e\<rfloor>"
  from assms have nn: "0 \<le> x / e" by simp
  then have t0: "0 \<le> ?t" by simp
  have q: "float2int (x / e) = min ?t (2 ^ 31 - 1)"
    using nn t0 by (simp add: float2int_def Let_def max_def min_def)
  then have q0: "0 \<le> float2int (x / e)" and qt: "float2int (x / e) \<le> ?t"
    using t0 by (simp_all add: min_def)
  have "real_of_int (float2int (x / e)) \<le> real_of_int ?t"
    using qt by simp
  also have "\<dots> \<le> x / e" by simp
  finally have "real_of_int (float2int (x / e)) \<le> x / e" .
  then have "real_of_int (float2int (x / e)) * e \<le> x"
    using assms(2) by (simp add: pos_le_divide_eq)
  with q0 show ?thesis by simp
qed

text \<open>What a thread that returns has done to the counters.\<close>

lemma thread_counters:
  assumes "optimize_batch_kernel_thread params gen head_embedding head_n tail_embedding tail_n
     head tail nnz epochs_per_sample move_other epochs_per_negative_sample alpha epoch gamma
     seed row s = Inr s'"
  shows "layout_alpha s' = layout_alpha s \<and>
    ((epoch_of_next_sample s' = epoch_of_next_sample s \<and>
      epoch_of_next_negative_sample s' = epoch_of_next_negative_sample s) \<or>
     (int row < nnz \<and> row < length (epoch_of_next_sample s) \<and>
      epoch_of_next_sample s ! row \<le> real_of_int epoch \<and>
      row < length epochs_per_sample \<and> row < length epochs_per_negative_sample \<and>
      row < length (epoch_of_next_negative_sample s) \<and>
      epoch_of_next_sample s' =
        (epoch_of_next_sample s)[row := epoch_of_next_sample s ! row + epochs_per_sample ! row] \<and>
      epoch_of_next_negative_sample s' =
        (epoch_of_next_negative_sample s)
          [row := epoch_of_next_negative_sample s ! row +
                  real_of_int (float2int ((real_of_int epoch -
                                           epoch_of_next_negative_sample s ! row) /
                                          epochs_per_negative_sample ! row)) *
                  epochs_per_negative_sample ! row]))"
  using assms
  by (auto simp: optimize_batch_kernel_thread_def Let_def split: if_splits sum.splits)

text \<open>
  A thread keeps the invariant of the edge \<open>row\<close>: the thread of another edge does not
  touch the counters of \<open>row\<close>, and the thread of \<open>row\<close> itself advances them.
\<close>

lemma thread_step:
  assumes run: "optimize_batch_kernel_thread params gen head_embedding head_n tail_embedding
       tail_n head tail nnz epochs_per_sample move_other epochs_per_negative_sample alpha
       epoch gamma seed r t = Inr t'"
    and pos: "0 < epochs_per_sample ! row"
    and posn: "0 < epochs_per_negative_sample ! row"
    and okt: "schedule_inv row s0 (real_of_int epoch) t"
  shows "schedule_inv row s0 (real_of_int epoch) t'"
proof -
  let ?S = "epoch_of_next_sample" and ?N = "epoch_of_next_negative_sample"
  note tc = thread_counters [OF run]
  from tc consider
      (same) "?S t' = ?S t" "?N t' = ?N t"
    | (fired) "r < length (?S t)" "?S t ! r \<le> real_of_int epoch"
        "r < length (?N t)"
        "?S t' = (?S t)[r := ?S t ! r + epochs_per_sample ! r]"
        "?N t' = (?N t)[r := ?N t ! r +
                  real_of_int (float2int ((real_of_int epoch - ?N t ! r) /
                                          epochs_per_negative_sample ! r)) *
                  epochs_per_negative_sample ! r]"
    by blast
  then show ?thesis
  proof cases
    case same
    with okt show ?thesis by (simp add: schedule_inv_def)
  next
    case fired
    show ?thesis
    proof (cases "r = row")
      case False
      then have "?S t' ! row = ?S t ! row" and "?N t' ! row = ?N t ! row"
        and "length (?S t') = length (?S t)" and "length (?N t') = length (?N t)"
        by (simp_all add: fired(4,5))
      with okt show ?thesis by (simp add: schedule_inv_def)
    next
      case True
      define e where "e = epochs_per_negative_sample ! row"
      define x where "x = real_of_int epoch - ?N t ! row"
      define q where "q = float2int (x / e)"
      have epos: "0 < e" using posn by (simp add: e_def)
      from okt fired(1,3) True
      have "?N t ! row \<le> ?S t ! row \<or> ?N t ! row \<le> real_of_int epoch"
        by (simp add: schedule_inv_def)
      with fired(2) True have "?N t ! row \<le> real_of_int epoch" by auto
      then have x0: "0 \<le> x" by (simp add: x_def)
      from float2int_floor [OF x0 epos] have q0: "0 \<le> q" and qx: "real_of_int q * e \<le> x"
        by (simp_all add: q_def)
      from q0 epos have inc: "0 \<le> real_of_int q * e" by simp
      have S': "?S t' = (?S t)[row := ?S t ! row + epochs_per_sample ! row]"
        using fired(4) True by simp
      have N': "?N t' = (?N t)[row := ?N t ! row + real_of_int q * e]"
        using fired(5) True by (simp add: q_def x_def e_def)
      have rS: "row < length (?S t)" and rN: "row < length (?N t)"
        using fired(1,3) True by simp_all
      have Sv: "?S t' ! row = ?S t ! row + epochs_per_sample ! row"
        using rS by (simp add: S')
      have Nv: "?N t' ! row = ?N t ! row + real_of_int q * e"
        using rN by (simp add: N')
      have Sge: "?S t ! row \<le> ?S t' ! row" using pos by (simp add: Sv)
      have Nge: "?N t ! row \<le> ?N t' ! row" using inc by (simp add: Nv)
      have Nle: "?N t' ! row \<le> real_of_int epoch" using qx by (simp add: Nv x_def)
      have lens: "length (?S t') = length (?S t)" "length (?N t') = length (?N t)"
        by (simp_all add: S' N')
      from okt have l0: "length (?S t) = length (?S s0)" "length (?N t) = length (?N s0)"
        and m0: "?S s0 ! row \<le> ?S t ! row" "?N s0 ! row \<le> ?N t ! row"
        using rS rN by (simp_all add: schedule_inv_def)
      show ?thesis
        unfolding schedule_inv_def using lens l0 m0 Sge Nge Nle by auto
    qed
  qed
qed

lemma kernel_step:
  assumes run: "optimize_batch_kernel params gen head_embedding head_n tail_embedding
       tail_n head tail nnz epochs_per_sample move_other epochs_per_negative_sample alpha
       epoch gamma seed t = Inr t'"
    and pos: "0 < epochs_per_sample ! row"
    and posn: "0 < epochs_per_negative_sample ! row"
    and okt: "schedule_inv row s0 (real_of_int epoch) t"
  shows "schedule_inv row s0 (real_of_int epoch) t'"
  using run [unfolded optimize_batch_kernel_def] okt
  by (rule foldM_preserves) (rule thread_step [OF _ pos posn])

lemma schedule_inv_weaken:
  "schedule_inv row s0 e t \<Longrightarrow> e \<le> e' \<Longrightarrow> schedule_inv row s0 e' t"
  unfolding schedule_inv_def by (meson order_trans)

lemma epoch_body_step:
  assumes run: "epoch_body params gen seed_of head_embedding head_n tail_embedding tail_n
       head tail nnz epochs_per_sample move_other epochs_per_negative_sample gamma n_epochs
       n t = Inr t'"
    and pos: "0 < epochs_per_sample ! row"
    and posn: "0 < epochs_per_negative_sample ! row"
    and okt: "schedule_inv row s0 (real n) t"
  shows "schedule_inv row s0 (real (Suc n)) t'"
proof -
  from run obtain t1 where
    k: "optimize_batch_kernel params gen head_embedding head_n tail_embedding
       tail_n head tail nnz epochs_per_sample move_other epochs_per_negative_sample
       (layout_alpha t) (int n) gamma (seed_of n) t = Inr t1"
    and t': "t' = t1\<lparr>emb := on_epoch_end params (emb t1),
                     layout_alpha := initial_alpha params *
                       (1 - real_of_int (int n) / real_of_int n_epochs)\<rparr>"
    by (auto simp: epoch_body_def Let_def split: sum.splits)
  from okt have "schedule_inv row s0 (real_of_int (int n)) t" by simp
  from kernel_step [OF k pos posn this]
  have "schedule_inv row s0 (real n) t1" by simp
  then have "schedule_inv row s0 (real (Suc n)) t1"
    by (rule schedule_inv_weaken) simp
  then show ?thesis
    by (simp add: schedule_inv_def t')
qed

lemma schedule_inv_refl: "schedule_inv row s0 e s \<Longrightarrow> schedule_inv row s e s"
  by (simp add: schedule_inv_def)

lemma run_epochs_inv:
  assumes pos: "0 < epochs_per_sample ! row"
    and posn: "0 < epochs_per_negative_sample ! row"
    and init: "schedule_inv row s0 0 s0"
    and run: "run_epochs params gen seed_of head_embedding head_n tail_embedding tail_n head
       tail nnz epochs_per_sample move_other epochs_per_negative_sample gamma n_epochs k s0
       = Inr s"
  shows "schedule_inv row s0 (real k) s"
  using run
proof (induction k arbitrary: s)
  case 0
  with init show ?case by simp
next
  case (Suc k)
  from Suc.prems obtain t where
    rt: "run_epochs params gen seed_of head_embedding head_n tail_embedding tail_n head
       tail nnz epochs_per_sample move_other epochs_per_negative_sample gamma n_epochs k s0
       = Inr t"
    and body: "epoch_body params gen seed_of head_embedding head_n tail_embedding tail_n head
       tail nnz epochs_per_sample move_other epochs_per_negative_sample gamma n_epochs k t
       = Inr s"
    by (rule run_epochs_Suc)
  from Suc.IH [OF rt] have "schedule_inv row s0 (real k) t" .
  with body pos posn show ?case by (rule epoch_body_step)
qed

lemma run_epochs_mono:
  assumes pos: "0 < epochs_per_sample ! row"
    and posn: "0 < epochs_per_negative_sample ! row"
    and init: "schedule_inv row s0 0 s0"
    and run: "run_epochs params gen seed_of head_embedding head_n tail_embedding tail_n head
       tail nnz epochs_per_sample move_other epochs_per_negative_sample gamma n_epochs k s0
       = Inr s"
    and le: "k \<le> k'"
    and run': "run_epochs params gen seed_of head_embedding head_n tail_embedding tail_n head
       tail nnz epochs_per_sample move_other epochs_per_negative_sample gamma n_epochs k' s0
       = Inr s'"
  shows "schedule_inv row s (real k') s'"
  using le run'
proof (induction k' arbitrary: s')
  case 0
  with run have "k = 0" and "s' = s" by simp_all
  moreover from run_epochs_inv [OF pos posn init run] have "schedule_inv row s (real k) s"
    by (rule schedule_inv_refl)
  ultimately show ?case by simp
next
  case (Suc k')
  show ?case
  proof (cases "k = Suc k'")
    case True
    with run Suc.prems(2) have "s' = s" by simp
    moreover from run_epochs_inv [OF pos posn init run] have "schedule_inv row s (real k) s"
      by (rule schedule_inv_refl)
    ultimately show ?thesis using True by simp
  next
    case False
    with Suc.prems(1) have le': "k \<le> k'" by simp
    from Suc.prems(2) obtain t where
      rt: "run_epochs params gen seed_of head_embedding head_n tail_embedding tail_n head
         tail nnz epochs_per_sample move_other epochs_per_negative_sample gamma n_epochs k' s0
         = Inr t"
      and body: "epoch_body params gen seed_of head_embedding head_n tail_embedding tail_n
         head tail nnz epochs_per_sample move_other epochs_per_negative_sample gamma n_epochs
         k' t = Inr s'"
      by (rule run_epochs_Suc)
    from Suc.IH [OF le' rt] have "schedule_inv row s (real k') t" .
    with body pos posn show ?thesis by (rule epoch_body_step)
  qed
qed

lemma layout_init_row:
  assumes "row < length epochs_per_sample" and "int row < nnz"
  shows "epoch_of_next_sample (layout_init params nnz epochs_per_sample m) ! row =
           epochs_per_sample ! row"
    and "epoch_of_next_negative_sample (layout_init params nnz epochs_per_sample m) ! row =
           epochs_per_sample ! row / real_of_int (negative_sample_rate params)"
    and "negative_schedule params nnz epochs_per_sample ! row =
           epochs_per_sample ! row / real_of_int (negative_sample_rate params)"
    and "row < length (epoch_of_next_sample (layout_init params nnz epochs_per_sample m))"
    and "row < length
           (epoch_of_next_negative_sample (layout_init params nnz epochs_per_sample m))"
proof -
  from assms(2) have "row < nat nnz" by linarith
  with assms(1) show
    "epoch_of_next_sample (layout_init params nnz epochs_per_sample m) ! row =
           epochs_per_sample ! row"
    "epoch_of_next_negative_sample (layout_init params nnz epochs_per_sample m) ! row =
           epochs_per_sample ! row / real_of_int (negative_sample_rate params)"
    "negative_schedule params nnz epochs_per_sample ! row =
           epochs_per_sample ! row / real_of_int (negative_sample_rate params)"
    "row < length (epoch_of_next_sample (layout_init params nnz epochs_per_sample m))"
    "row < length
           (epoch_of_next_negative_sample (layout_init params nnz epochs_per_sample m))"
    by (simp_all add: layout_init_def negative_schedule_def Let_def)
qed

lemma layout_init_inv:
  assumes nsr: "0 < negative_sample_rate params"
    and row: "row < length epochs_per_sample" "int row < nnz"
    and pos: "0 < epochs_per_sample ! row"
  shows "schedule_inv row (layout_init params nnz epochs_per_sample m) 0
           (layout_init params nnz epochs_per_sample m)"
proof -
  from nsr have r: "1 \<le> real_of_int (negative_sample_rate params)" by simp
  have "epochs_per_sample ! row * 1
          \<le> epochs_per_sample ! row * real_of_int (negative_sample_rate params)"
    using pos r by (intro mult_left_mono) simp_all
  with nsr have "epochs_per_sample ! row / real_of_int (negative_sample_rate params)
          \<le> epochs_per_sample ! row"
    by (simp add: pos_divide_le_eq)
  then show ?thesis
    by (simp add: schedule_inv_def layout_init_row [OF row])
qed

text \<open>
  Every entry of a schedule that the launcher builds is positive: a weight that survives
  the thresholding and the compaction has the sign of the largest surviving weight.
  The hypothesis of the next theorem on \<open>epochs_per_sample\<close> therefore holds for every
  edge that the launcher passes to the driver.
\<close>

lemma coo_remove_zeros_vals:
  "w \<in> set (vals (coo_remove_zeros c)) \<Longrightarrow> w \<in> set (vals c) \<and> w \<noteq> 0"
  by (auto simp: coo_remove_zeros_def Let_def dest!: set_zip_rightD)

lemma prune_weights_cases:
  "w \<in> set (prune_weights mx n ws) \<Longrightarrow>
     w = 0 \<or> (w \<in> set ws \<and> mx / real_of_int n \<le> w)"
  by (auto simp: prune_weights_def)

lemma launcher_n_epochs_pos: "0 < launcher_n_epochs m params"
  by (simp add: launcher_n_epochs_def Let_def)

lemma max_element_ge: "w \<in> set ws \<Longrightarrow> w \<le> max_element ws"
  using max_element_Max [of ws] by (cases "ws = []") auto

lemma max_element_mem: "ws \<noteq> [] \<Longrightarrow> max_element ws \<in> set ws"
  using max_element_Max [of ws] Max_in [of "set ws"] by simp

lemma launcher_schedule_positive:
  fixes inp :: COO and m :: int and params :: UMAPParams and embedding :: int and gen :: rng
    and seed_of :: "nat \<Rightarrow> 64 word" and mem0 :: mem
  defines "out \<equiv> coo_remove_zeros (fst (launcher m inp params embedding gen seed_of mem0))"
  assumes i: "i < length (vals out)"
  shows "0 < make_epochs_per_sample (vals out) (coo_nnz out) (launcher_n_epochs m params) ! i"
proof -
  let ?n = "launcher_n_epochs m params"
  let ?mx = "max_element (vals inp)"
  have npos: "0 < real_of_int ?n" using launcher_n_epochs_pos [of m params] by simp
  have kept: "w \<in> set (vals inp) \<and> w \<noteq> 0 \<and> ?mx / real_of_int ?n \<le> w"
    if "w \<in> set (vals out)" for w
  proof -
    from that have "w \<in> set (prune_weights ?mx ?n (vals inp))" and "w \<noteq> 0"
      using coo_remove_zeros_vals [of w "fst (launcher m inp params embedding gen seed_of mem0)"]
      by (simp_all add: out_def fst_launcher)
    with prune_weights_cases [of w ?mx ?n "vals inp"] show ?thesis by auto
  qed
  have sign: "(0 < w \<and> 0 < w') \<or> (w < 0 \<and> w' < 0)"
    if "w \<in> set (vals out)" "w' \<in> set (vals out)" for w w'
  proof (cases "0 < ?mx")
    case True
    with npos have "0 < ?mx / real_of_int ?n" by simp
    with kept [OF that(1)] kept [OF that(2)] show ?thesis by linarith
  next
    case False
    from kept [OF that(1)] have "w \<le> ?mx" "w \<noteq> 0" by (simp_all add: max_element_ge)
    moreover from kept [OF that(2)] have "w' \<le> ?mx" "w' \<noteq> 0"
      by (simp_all add: max_element_ge)
    ultimately show ?thesis using False by linarith
  qed
  from i have ne: "vals out \<noteq> []" by auto
  have wi: "vals out ! i \<in> set (vals out)" using i by simp
  have wm: "max_element (vals out) \<in> set (vals out)" using ne by (rule max_element_mem)
  from sign [OF wi wm] have q: "0 < vals out ! i / max_element (vals out)"
    by (auto simp: zero_less_divide_iff)
  from npos q have v: "0 < real_of_int ?n * (vals out ! i / max_element (vals out))"
    by (rule mult_pos_pos)
  from npos v
  have "0 < real_of_int ?n / (real_of_int ?n * (vals out ! i / max_element (vals out)))"
    by (rule divide_pos_pos)
  with v i show ?thesis
    by (simp add: make_epochs_per_sample_def coo_nnz_def Let_def)
qed

text \<open>
  Claim C3, as amended. Let \<open>negative_sample_rate\<close> be positive. For every edge \<open>row\<close>
  whose \<open>epochs_per_sample\<close> is positive, whatever the entries of the other edges, the
  counters start at \<open>epochs_per_sample[row]\<close> and
  \<open>epochs_per_sample[row] / negative_sample_rate\<close>, and between the state after \<open>k\<close>
  epochs and the state after \<open>k' \<ge> k\<close> epochs of the same run neither counter of the
  edge decreases.
\<close>

theorem schedule_counters_monotone:
  assumes "0 < negative_sample_rate params"
    and "row < length epochs_per_sample" and "int row < nnz"
    and "0 < epochs_per_sample ! row"
    and "run_epochs params gen seed_of head_embedding head_n tail_embedding tail_n head
       tail nnz epochs_per_sample move_other (negative_schedule params nnz epochs_per_sample)
       gamma n_epochs k (layout_init params nnz epochs_per_sample m) = Inr s"
    and "k \<le> k'"
    and "run_epochs params gen seed_of head_embedding head_n tail_embedding tail_n head
       tail nnz epochs_per_sample move_other (negative_schedule params nnz epochs_per_sample)
       gamma n_epochs k' (layout_init params nnz epochs_per_sample m) = Inr s'"
  shows "epoch_of_next_sample (layout_init params nnz epochs_per_sample m) ! row =
           epochs_per_sample ! row \<and>
         epoch_of_next_negative_sample (layout_init params nnz epochs_per_sample m) ! row =
           epochs_per_sample ! row / real_of_int (negative_sample_rate params) \<and>
         epoch_of_next_sample s ! row \<le> epoch_of_next_sample s' ! row \<and>
         epoch_of_next_negative_sample s ! row \<le> epoch_of_next_negative_sample s' ! row"
proof -
  let ?s0 = "layout_init params nnz epochs_per_sample m"
  note row = assms(2,3)
  have posn: "0 < negative_schedule params nnz epochs_per_sample ! row"
    using assms(1,4) by (simp add: layout_init_row(3) [OF row])
  note init = layout_init_inv [OF assms(1) row assms(4), of m]
  from run_epochs_inv [OF assms(4) posn init assms(5)]
  have a: "schedule_inv row ?s0 (real k) s" .
  from run_epochs_mono [OF assms(4) posn init assms(5,6,7)]
  have b: "schedule_inv row s (real k') s'" .
  from a layout_init_row(4,5) [OF row, of params m]
  have "row < length (epoch_of_next_sample s)"
    "row < length (epoch_of_next_negative_sample s)"
    by (simp_all add: schedule_inv_def)
  with b have "epoch_of_next_sample s ! row \<le> epoch_of_next_sample s' ! row"
    "epoch_of_next_negative_sample s ! row \<le> epoch_of_next_negative_sample s' ! row"
    by (simp_all add: schedule_inv_def)
  with layout_init_row(1,2) [OF row, of params m] show ?thesis by simp
qed

text \<open>
  Witness for C3: the run over the schedule \<open>[- 1, 1]\<close> that the builder gives for
  the weights \<open>[0, 1]\<close>. Edge \<open>0\<close> holds the sentinel; the counters of edge \<open>1\<close> are
  \<open>1\<close> and \<open>1 / 5\<close> after one epoch and \<open>2\<close> and \<open>1\<close> after two epochs.
\<close>

lemma mixed_run_1:
  "run_epochs scenario_params (const_rng 1) fixed_clock 0 2 0 2 [0, 1] [1, 0] 2
     (make_epochs_per_sample [0, 1] 2 2) True
     (negative_schedule scenario_params 2 (make_epochs_per_sample [0, 1] 2 2)) 1 2 1
     (layout_init scenario_params 2 (make_epochs_per_sample [0, 1] 2 2) unit_mem) =
   Inr \<lparr>emb = unit_mem(0 := 1, 2 := 0, 1 := 0, 3 := 0),
        epoch_of_next_negative_sample = [0, 1 / 5],
        epoch_of_next_sample = [- 2, 1], layout_alpha = 1\<rparr>"
  by (simp add: model_defs upt_rec)

lemma mixed_run_2:
  "run_epochs scenario_params (const_rng 1) fixed_clock 0 2 0 2 [0, 1] [1, 0] 2
     (make_epochs_per_sample [0, 1] 2 2) True
     (negative_schedule scenario_params 2 (make_epochs_per_sample [0, 1] 2 2)) 1 2 2
     (layout_init scenario_params 2 (make_epochs_per_sample [0, 1] 2 2) unit_mem) =
   Inr \<lparr>emb = unit_mem(2 := 0, 0 := 1, 3 := 0, 1 := 0),
        epoch_of_next_negative_sample = [1, 1],
        epoch_of_next_sample = [- 3, 2], layout_alpha = 1 / 2\<rparr>"
  by (simp add: numeral_2_eq_2 model_defs upt_rec)

theorem schedule_counters_monotone_witness:
  "epoch_of_next_sample
     (layout_init scenario_params 2 (make_epochs_per_sample [0, 1] 2 2) unit_mem) ! 1 = 1 \<and>
   epoch_of_next_sample
     \<lparr>emb = unit_mem(0 := 1, 2 := 0, 1 := 0, 3 := 0),
      epoch_of_next_negative_sample = [0, 1 / 5],
      epoch_of_next_sample = [- 2, 1], layout_alpha = 1\<rparr> ! 1
     \<le> epoch_of_next_sample
         \<lparr>emb = unit_mem(2 := 0, 0 := 1, 3 := 0, 1 := 0),
          epoch_of_next_negative_sample = [1, 1],
          epoch_of_next_sample = [- 3, 2], layout_alpha = 1 / 2\<rparr> ! 1 \<and>
   epoch_of_next_negative_sample
     \<lparr>emb = unit_mem(0 := 1, 2 := 0, 1 := 0, 3 := 0),
      epoch_of_next_negative_sample = [0, 1 / 5],
      epoch_of_next_sample = [- 2, 1], layout_alpha = 1\<rparr> ! 1
     \<le> epoch_of_next_negative_sample
         \<lparr>emb = unit_mem(2 := 0, 0 := 1, 3 := 0, 1 := 0),
          epoch_of_next_negative_sample = [1, 1],
          epoch_of_next_sample = [- 3, 2], layout_alpha = 1 / 2\<rparr> ! 1"
proof -
  have nsr: "0 < negative_sample_rate scenario_params"
    by (simp add: scenario_params_def)
  have row: "1 < length (make_epochs_per_sample [0, 1] 2 2)" "int 1 < 2"
    by (simp_all add: sentinel_schedule)
  have pos: "0 < make_epochs_per_sample [0, 1] 2 2 ! 1"
    by (simp add: sentinel_schedule)
  have le: "(1::nat) \<le> 2" by simp
  from schedule_counters_monotone [OF nsr row pos mixed_run_1 le mixed_run_2]
  show ?thesis by (simp add: sentinel_schedule)
qed

text \<open>
  Counterexample to C3 as stated: the schedule builder gives the sentinel \<open>- 1\<close> to the
  edge of weight \<open>0\<close> in \<open>[0, 1]\<close>. The counter \<open>epoch_of_next_sample\<close> of that edge
  starts at \<open>- 1\<close> and is \<open>- 2\<close> after the first epoch.
\<close>

theorem schedule_counters_counterexample:
  "epoch_of_next_sample
     (layout_init scenario_params 2 (make_epochs_per_sample [0, 1] 2 2) unit_mem) = [- 1, 1] \<and>
   map_sum id epoch_of_next_sample
     (run_epochs scenario_params (const_rng 0) fixed_clock 0 2 0 2 [0, 1] [1, 0] 2
        (make_epochs_per_sample [0, 1] 2 2) True
        (negative_schedule scenario_params 2 (make_epochs_per_sample [0, 1] 2 2)) 1 2 1
        (layout_init scenario_params 2 (make_epochs_per_sample [0, 1] 2 2) unit_mem))
     = Inr [- 2, 1]"
  unfolding sentinel_run_1 by (simp add: sentinel_schedule layout_init_def)

end
